theory Spec2Isabelle
  imports Complex_Main "HOL-Library.AList" "HOL-Library.Sublist"
begin

section \<open>Python values, dictionaries and exceptions\<close>

text \<open>
  The simulator of \<^verbatim>\<open>kaag/simulation/simulator.py\<close> is a sequencing layer over
  collaborators that live in other modules (the DBN, the LLM, the retriever, the
  knowledge integrator, the analyzers).  Values that only pass through the simulator
  are strings or opaque objects of a type \<open>'o\<close>.  A Python \<^verbatim>\<open>dict\<close> keeps its
  insertion order, so it is an association list with distinct keys: setting a key
  replaces the value in place or appends the pair, which is \<open>AList.update\<close>.
\<close>

type_synonym 'v dict = "(string \<times> 'v) list"

datatype 'o pyval = Str string | Obj 'o

text \<open>
  Exceptions.  \<open>KeyError\<close> and \<open>Exception\<close> stand for instances of Python's class
  \<^verbatim>\<open>Exception\<close>; \<open>BaseException\<close> stands for the exceptions outside that class
  (\<^verbatim>\<open>KeyboardInterrupt\<close>, \<^verbatim>\<open>SystemExit\<close>), which \<^verbatim>\<open>except Exception\<close> does not catch.
\<close>

datatype pyexn = KeyError string | Exception string | BaseException string

fun is_Exception :: "pyexn \<Rightarrow> bool" where
  "is_Exception (KeyError k) = True"
| "is_Exception (Exception m) = True"
| "is_Exception (BaseException m) = False"

definition ebind :: "pyexn + 'a \<Rightarrow> ('a \<Rightarrow> pyexn + 'b) \<Rightarrow> pyexn + 'b" where
  "ebind r f = (case r of Inl e \<Rightarrow> Inl e | Inr a \<Rightarrow> f a)"

definition getitem :: "'v dict \<Rightarrow> string \<Rightarrow> pyexn + 'v" where
  "getitem d k = (case map_of d k of None \<Rightarrow> Inl (KeyError k) | Some v \<Rightarrow> Inr v)"

definition dict_get :: "'v dict \<Rightarrow> string \<Rightarrow> 'v \<Rightarrow> 'v" where
  "dict_get d k dflt = (case map_of d k of None \<Rightarrow> dflt | Some v \<Rightarrow> v)"

definition dict_set :: "'v dict \<Rightarrow> string \<Rightarrow> 'v \<Rightarrow> 'v dict" where
  "dict_set d k v = AList.update k v d"

definition dict_update :: "'v dict \<Rightarrow> 'v dict \<Rightarrow> 'v dict" where
  "dict_update d other = fold (\<lambda>(k, v) acc. dict_set acc k v) other d"

subsection \<open>Strings\<close>

text \<open>
  A string is a list of bytes.  \<open>lower\<close> lowers the ASCII letters and leaves every other
  byte as it is: it is what \<^verbatim>\<open>str.lower\<close> does on ASCII text, and it is not
  \<^verbatim>\<open>str.lower\<close> on other text, which Python lowers by the Unicode tables.  The simulator
  below therefore takes \<^verbatim>\<open>str.lower\<close> from the runtime (\<open>str_lower\<close>), and \<open>lower\<close> is
  used where a run is on ASCII text.  \<open>str_contains p t\<close> is the substring test
  \<^verbatim>\<open>p in t\<close>.
\<close>

definition lower_char :: "char \<Rightarrow> char" where
  "lower_char c =
     (let n = (of_char c :: nat) in
      if 65 \<le> n \<and> n \<le> 90
      then Char (digit0 c) (digit1 c) (digit2 c) (digit3 c) (digit4 c) True (digit6 c) (digit7 c)
      else c)"

definition lower :: "string \<Rightarrow> string" where
  "lower s = map lower_char s"

fun str_contains :: "string \<Rightarrow> string \<Rightarrow> bool" where
  "str_contains p [] = (p = [])"
| "str_contains p (c # cs) = (prefix p (c # cs) \<or> str_contains p cs)"

fun join :: "string \<Rightarrow> string list \<Rightarrow> string" where
  "join sep [] = []"
| "join sep [s] = s"
| "join sep (s # t # ss) = s @ sep @ join sep (t # ss)"

subsection \<open>What the Python runtime supplies\<close>

text \<open>
  How an opaque object, a string or a float is printed (\<^verbatim>\<open>str\<close>, \<^verbatim>\<open>repr\<close>), what
  \<^verbatim>\<open>str.lower\<close> returns, and whether \<^verbatim>\<open>getattr(logging, level)\<close> followed by
  \<^verbatim>\<open>logging.basicConfig\<close> raises are not decided by the simulator: they are parameters
  of the model.
\<close>

record 'o python =
  str_obj :: "'o \<Rightarrow> string"
  repr_obj :: "'o \<Rightarrow> string"
  repr_str :: "string \<Rightarrow> string"
  repr_float :: "real \<Rightarrow> string"
  str_lower :: "string \<Rightarrow> string"
  basicConfig :: "string \<Rightarrow> string \<Rightarrow> pyexn option"

definition str_val :: "'o python \<Rightarrow> 'o pyval \<Rightarrow> string" where
  "str_val py v = (case v of Str s \<Rightarrow> s | Obj ob \<Rightarrow> str_obj py ob)"

definition repr_val :: "'o python \<Rightarrow> 'o pyval \<Rightarrow> string" where
  "repr_val py v = (case v of Str s \<Rightarrow> repr_str py s | Obj ob \<Rightarrow> repr_obj py ob)"

definition str_dict :: "(string \<Rightarrow> string) \<Rightarrow> ('v \<Rightarrow> string) \<Rightarrow> 'v dict \<Rightarrow> string" where
  "str_dict rk rv d = ''{'' @ join '', '' (map (\<lambda>(k, v). rk k @ '': '' @ rv v) d) @ ''}''"

definition exn_str :: "'o python \<Rightarrow> pyexn \<Rightarrow> string" where
  "exn_str py e = (case e of KeyError k \<Rightarrow> repr_str py k | Exception m \<Rightarrow> m | BaseException m \<Rightarrow> m)"

section \<open>The configuration mapping\<close>

text \<open>
  The nested mapping \<^verbatim>\<open>config\<close>, with the keys the simulator reads.  A key that is
  absent is \<open>None\<close>, and reading it raises \<^verbatim>\<open>KeyError\<close>.
\<close>

record logging_config =
  file_path :: "string option"
  level :: "string option"

record simulation_config =
  logging :: "logging_config option"
  max_turns :: "int option"
  end_phrases :: "string list option"

record 'o config_map =
  simulation :: "simulation_config option"
  triggers :: "'o pyval option"

definition cfg_simulation :: "'o config_map \<Rightarrow> pyexn + simulation_config" where
  "cfg_simulation cfg =
     (case simulation cfg of None \<Rightarrow> Inl (KeyError ''simulation'') | Some sc \<Rightarrow> Inr sc)"

definition cfg_logging :: "'o config_map \<Rightarrow> pyexn + logging_config" where
  "cfg_logging cfg =
     (case cfg_simulation cfg of Inl e \<Rightarrow> Inl e
      | Inr sc \<Rightarrow> (case logging sc of None \<Rightarrow> Inl (KeyError ''logging'') | Some lc \<Rightarrow> Inr lc))"

definition cfg_file_path :: "'o config_map \<Rightarrow> pyexn + string" where
  "cfg_file_path cfg =
     (case cfg_logging cfg of Inl e \<Rightarrow> Inl e
      | Inr lc \<Rightarrow> (case file_path lc of None \<Rightarrow> Inl (KeyError ''file_path'') | Some p \<Rightarrow> Inr p))"

definition cfg_level :: "'o config_map \<Rightarrow> pyexn + string" where
  "cfg_level cfg =
     (case cfg_logging cfg of Inl e \<Rightarrow> Inl e
      | Inr lc \<Rightarrow> (case level lc of None \<Rightarrow> Inl (KeyError ''level'') | Some l \<Rightarrow> Inr l))"

definition cfg_max_turns :: "'o config_map \<Rightarrow> pyexn + int" where
  "cfg_max_turns cfg =
     (case cfg_simulation cfg of Inl e \<Rightarrow> Inl e
      | Inr sc \<Rightarrow> (case max_turns sc of None \<Rightarrow> Inl (KeyError ''max_turns'') | Some m \<Rightarrow> Inr m))"

definition cfg_end_phrases :: "'o config_map \<Rightarrow> pyexn + string list" where
  "cfg_end_phrases cfg =
     (case cfg_simulation cfg of Inl e \<Rightarrow> Inl e
      | Inr sc \<Rightarrow> (case end_phrases sc of None \<Rightarrow> Inl (KeyError ''end_phrases'') | Some ps \<Rightarrow> Inr ps))"

definition cfg_triggers :: "'o config_map \<Rightarrow> pyexn + 'o pyval" where
  "cfg_triggers cfg =
     (case triggers cfg of None \<Rightarrow> Inl (KeyError ''triggers'') | Some t \<Rightarrow> Inr t)"

section \<open>The collaborators\<close>

text \<open>
  A collaborator's method acts on the state \<open>'w\<close> of everything outside the simulator:
  it returns a value or raises, and leaves a new outside state in both cases.  What it
  does there is not constrained.  It is taken not to reach back into the simulator: it
  does not assign the simulator's attributes and does not change, in place, the
  configuration or a dictionary it is handed.
\<close>

type_synonym ('a, 'w) pymethod = "'w \<Rightarrow> (pyexn + 'a) \<times> 'w"

record ('o, 'w) dbn_obj =
  get_context :: "('o pyval dict, 'w) pymethod"
  update :: "real dict \<Rightarrow> string \<Rightarrow> string \<Rightarrow> (unit, 'w) pymethod"
  check_triggers :: "'o pyval \<Rightarrow> ('o pyval dict option, 'w) pymethod"
  learn_from_success :: "real \<Rightarrow> (unit, 'w) pymethod"

record 'w llm_obj =
  generate :: "string \<Rightarrow> (string, 'w) pymethod"

record ('o, 'w) retriever_obj =
  retrieve :: "string \<Rightarrow> ('o pyval, 'w) pymethod"

record ('o, 'w) integrator_obj =
  integrate :: "string \<Rightarrow> 'o pyval dict \<Rightarrow> ('o pyval, 'w) pymethod"

record ('o, 'w) analyzer_obj =
  class_name :: string
  analyze :: "string \<Rightarrow> string \<Rightarrow> 'o pyval dict \<Rightarrow> (real dict, 'w) pymethod"

subsection \<open>The record of calls\<close>

text \<open>
  Every call that leaves the simulator (to a collaborator or to \<^verbatim>\<open>logging\<close>) is written,
  with its arguments and its outcome, at the end of a trace kept beside the outside
  state.  The trace is only there to state which calls were made and in which order.
\<close>

datatype 'o call =
    DbnGetContext
  | RetrieverRetrieve string
  | IntegratorIntegrate string "'o pyval dict"
  | LlmGenerate string
  | AnalyzerAnalyze string string string "'o pyval dict"
  | DbnUpdate "real dict" string string
  | DbnLearnFromSuccess real
  | DbnCheckTriggers "'o pyval"
  | LoggingBasicConfig string string
  | LoggingInfo string
  | LoggingError string

datatype 'o ret =
    RDict "'o pyval dict"
  | RVal "'o pyval"
  | RStr string
  | RResults "real dict"
  | RTrigger "'o pyval dict option"
  | RNone

datatype 'o outcome = Raised pyexn | Returned "'o ret"

record ('o, 'w) outside =
  world :: 'w
  trace :: "('o call \<times> 'o outcome) list"

type_synonym ('a, 's) py = "'s \<Rightarrow> (pyexn + 'a) \<times> 's"

definition preturn :: "'a \<Rightarrow> ('a, 's) py" where
  "preturn a s = (Inr a, s)"

definition lift :: "pyexn + 'a \<Rightarrow> ('a, 's) py" where
  "lift r s = (r, s)"

definition pbind :: "('a, 's) py \<Rightarrow> ('a \<Rightarrow> ('b, 's) py) \<Rightarrow> ('b, 's) py" where
  "pbind m f s = (case m s of (Inl e, s') \<Rightarrow> (Inl e, s') | (Inr a, s') \<Rightarrow> f a s')"

definition outcome_of :: "('a \<Rightarrow> 'o ret) \<Rightarrow> pyexn + 'a \<Rightarrow> 'o outcome" where
  "outcome_of tag r = (case r of Inl e \<Rightarrow> Raised e | Inr a \<Rightarrow> Returned (tag a))"

definition invoke ::
  "'o call \<Rightarrow> ('a \<Rightarrow> 'o ret) \<Rightarrow> ('a, 'w) pymethod \<Rightarrow> ('a, ('o, 'w) outside) py" where
  "invoke c tag f x =
     (case f (world x) of
        (r, w') \<Rightarrow> (r, \<lparr>world = w', trace = trace x @ [(c, outcome_of tag r)]\<rparr>))"

definition logged :: "'o call \<Rightarrow> (unit, ('o, 'w) outside) py" where
  "logged c x = (Inr (), x\<lparr>trace := trace x @ [(c, Returned RNone)]\<rparr>)"

definition logging_info :: "string \<Rightarrow> (unit, ('o, 'w) outside) py" where
  "logging_info msg = logged (LoggingInfo msg)"

definition logging_error :: "string \<Rightarrow> (unit, ('o, 'w) outside) py" where
  "logging_error msg = logged (LoggingError msg)"

section \<open>The simulator\<close>

record ('o, 'w) simulator =
  dbn :: "('o, 'w) dbn_obj"
  llm :: "'w llm_obj"
  retriever :: "('o, 'w) retriever_obj"
  knowledge_integrator :: "('o, 'w) integrator_obj"
  config :: "'o config_map"
  analyzers :: "('o, 'w) analyzer_obj list"
  turn_count :: int

text \<open>\<^verbatim>\<open>Simulator._setup_logging\<close>: both keys are read, then the logging module is set up.\<close>

definition setup_logging :: "'o python \<Rightarrow> ('o, 'w) simulator \<Rightarrow> (unit, ('o, 'w) outside) py" where
  "setup_logging py self =
     pbind (lift (cfg_file_path (config self))) (\<lambda>path.
     pbind (lift (cfg_level (config self))) (\<lambda>lvl.
       case basicConfig py path lvl of
         Some e \<Rightarrow> lift (Inl e)
       | None \<Rightarrow> logged (LoggingBasicConfig path lvl)))"

text \<open>\<^verbatim>\<open>Simulator.__init__\<close>: the attributes are stored, the turn counter starts at 0.\<close>

definition init ::
  "'o python \<Rightarrow> ('o, 'w) dbn_obj \<Rightarrow> 'w llm_obj \<Rightarrow> ('o, 'w) retriever_obj \<Rightarrow>
   ('o, 'w) integrator_obj \<Rightarrow> 'o config_map \<Rightarrow> ('o, 'w) analyzer_obj list \<Rightarrow>
   (('o, 'w) simulator, ('o, 'w) outside) py" where
  "init py d l r k cfg as =
     (let self = \<lparr>dbn = d, llm = l, retriever = r, knowledge_integrator = k,
                  config = cfg, analyzers = as, turn_count = 0\<rparr>
      in pbind (setup_logging py self) (\<lambda>_. preturn self))"

text \<open>\<^verbatim>\<open>Simulator._generate_context\<close>\<close>

definition generate_context ::
  "('o, 'w) simulator \<Rightarrow> string \<Rightarrow> ('o pyval dict, ('o, 'w) outside) py" where
  "generate_context self user_input =
     pbind (invoke DbnGetContext RDict (get_context (dbn self))) (\<lambda>dbn_context.
     pbind (invoke (RetrieverRetrieve user_input) RVal
              (retrieve (retriever self) user_input)) (\<lambda>retrieved_knowledge.
     pbind (invoke (IntegratorIntegrate user_input dbn_context) RVal
              (integrate (knowledge_integrator self) user_input dbn_context)) (\<lambda>integrated_knowledge.
     preturn
       (dict_set
         (dict_set
           (dict_set dbn_context ''retrieved_knowledge'' retrieved_knowledge)
           ''integrated_knowledge'' integrated_knowledge)
         ''user_input'' (Str user_input)))))"

text \<open>The f-strings of \<^verbatim>\<open>_generate_plan\<close>, \<^verbatim>\<open>_generate_response\<close> and \<^verbatim>\<open>_self_reflect\<close>.\<close>

definition plan_prompt :: "'o python \<Rightarrow> 'o pyval dict \<Rightarrow> pyexn + string" where
  "plan_prompt py context =
      ebind (getitem context ''current_stage'') (\<lambda>current_stage.
      ebind (getitem context ''metrics'') (\<lambda>metrics.
      ebind (getitem context ''user_input'') (\<lambda>user_input.
      ebind (getitem context ''integrated_knowledge'') (\<lambda>integrated_knowledge.
        Inr (''\<newline>        Given the following context, generate a plan for the next response:''
           @ ''\<newline>        Current stage: '' @ str_val py current_stage
           @ ''\<newline>        Metrics: '' @ str_val py metrics
           @ ''\<newline>        User input: '' @ str_val py user_input
           @ ''\<newline>        Integrated knowledge: '' @ str_val py integrated_knowledge
           @ ''\<newline>\<newline>        Plan:\<newline>        '')))))"

definition response_prompt :: "'o python \<Rightarrow> 'o pyval dict \<Rightarrow> string \<Rightarrow> pyexn + string" where
  "response_prompt py context plan =
      ebind (getitem context ''current_stage'') (\<lambda>current_stage.
      ebind (getitem context ''metrics'') (\<lambda>metrics.
      ebind (getitem context ''user_input'') (\<lambda>user_input.
      ebind (getitem context ''integrated_knowledge'') (\<lambda>integrated_knowledge.
        Inr (''\<newline>        Context:''
           @ ''\<newline>        Current stage: '' @ str_val py current_stage
           @ ''\<newline>        Metrics: '' @ str_val py metrics
           @ ''\<newline>        User input: '' @ str_val py user_input
           @ ''\<newline>        Integrated knowledge: '' @ str_val py integrated_knowledge
           @ ''\<newline>        \<newline>        Plan: '' @ plan
           @ ''\<newline>        \<newline>        Generate a response based on the above context and plan:''
           @ ''\<newline>        '')))))"

definition reflection_prompt ::
  "'o python \<Rightarrow> 'o pyval dict \<Rightarrow> string \<Rightarrow> string \<Rightarrow> real dict \<Rightarrow> string" where
  "reflection_prompt py context plan ai_response analysis_results =
     ''\<newline>        Context: '' @ str_dict (repr_str py) (repr_val py) context
     @ ''\<newline>        Plan: '' @ plan
     @ ''\<newline>        AI Response: '' @ ai_response
     @ ''\<newline>        Analysis Results: '' @ str_dict (repr_str py) (repr_float py) analysis_results
     @ ''\<newline>        \<newline>        Reflect on the interaction and suggest improvements:''
     @ ''\<newline>        ''"

text \<open>\<^verbatim>\<open>Simulator._generate_plan\<close> and \<^verbatim>\<open>Simulator._generate_response\<close>\<close>

definition generate_plan ::
  "'o python \<Rightarrow> ('o, 'w) simulator \<Rightarrow> 'o pyval dict \<Rightarrow> (string, ('o, 'w) outside) py" where
  "generate_plan py self context =
     pbind (lift (plan_prompt py context)) (\<lambda>prompt.
       invoke (LlmGenerate prompt) RStr (generate (llm self) prompt))"

definition generate_response ::
  "'o python \<Rightarrow> ('o, 'w) simulator \<Rightarrow> 'o pyval dict \<Rightarrow> string \<Rightarrow> (string, ('o, 'w) outside) py" where
  "generate_response py self context plan =
     pbind (lift (response_prompt py context plan)) (\<lambda>prompt.
       invoke (LlmGenerate prompt) RStr (generate (llm self) prompt))"

text \<open>
  \<^verbatim>\<open>Simulator._analyze_interaction\<close>: the loop over the analyzers, with the dictionary
  \<^verbatim>\<open>results\<close> as accumulator.  An exception of class \<^verbatim>\<open>Exception\<close> is logged and the
  loop goes on; any other exception leaves the loop.
\<close>

fun analyze_loop ::
  "'o python \<Rightarrow> ('o, 'w) analyzer_obj list \<Rightarrow> string \<Rightarrow> string \<Rightarrow> 'o pyval dict \<Rightarrow>
   real dict \<Rightarrow> (real dict, ('o, 'w) outside) py" where
  "analyze_loop py [] user_input ai_response context results x = (Inr results, x)"
| "analyze_loop py (analyzer # rest) user_input ai_response context results x =
     (case invoke (AnalyzerAnalyze (class_name analyzer) user_input ai_response context) RResults
             (analyze analyzer user_input ai_response context) x of
        (Inr d, x1) \<Rightarrow>
          analyze_loop py rest user_input ai_response context (dict_update results d) x1
      | (Inl e, x1) \<Rightarrow>
          if is_Exception e then
            (case logging_error (''Error in '' @ class_name analyzer @ '': '' @ exn_str py e) x1 of
               (_, x2) \<Rightarrow> analyze_loop py rest user_input ai_response context results x2)
          else (Inl e, x1))"

definition analyze_interaction ::
  "'o python \<Rightarrow> ('o, 'w) simulator \<Rightarrow> string \<Rightarrow> string \<Rightarrow> 'o pyval dict \<Rightarrow>
   (real dict, ('o, 'w) outside) py" where
  "analyze_interaction py self user_input ai_response context =
     analyze_loop py (analyzers self) user_input ai_response context []"

text \<open>\<^verbatim>\<open>Simulator._self_reflect\<close>\<close>

definition self_reflect ::
  "'o python \<Rightarrow> ('o, 'w) simulator \<Rightarrow> 'o pyval dict \<Rightarrow> string \<Rightarrow> string \<Rightarrow> real dict \<Rightarrow>
   (unit, ('o, 'w) outside) py" where
  "self_reflect py self context plan ai_response analysis_results =
     (let prompt = reflection_prompt py context plan ai_response analysis_results in
      pbind (invoke (LlmGenerate prompt) RStr (generate (llm self) prompt)) (\<lambda>reflection.
      pbind (logging_info (''Self-reflection: '' @ reflection)) (\<lambda>_.
        let score = dict_get analysis_results ''satisfaction_score'' 0.5 in
        invoke (DbnLearnFromSuccess score) (\<lambda>_. RNone) (learn_from_success (dbn self) score))))"

text \<open>
  \<^verbatim>\<open>Simulator.run_interaction\<close>, in four pieces: \<open>end_check\<close> is lines 48 to 52 (the
  end phrases), \<open>after_trigger\<close> lines 44 to 52 (a trigger is truthy when it is a
  dictionary that is not empty; \<^verbatim>\<open>None\<close> and the empty dictionary are falsy),
  \<open>trigger_check\<close> lines 43 to 52 and \<open>run_turn\<close> lines 34 to 52, all with the simulator
  as it is after the turn counter was incremented.
\<close>

definition end_check ::
  "'o python \<Rightarrow> ('o, 'w) simulator \<Rightarrow> string \<Rightarrow> ('o pyval, ('o, 'w) outside) py" where
  "end_check py self ai_response =
     pbind (lift (cfg_end_phrases (config self))) (\<lambda>phrases.
       if list_ex (\<lambda>phrase. str_contains phrase (str_lower py ai_response)) phrases
       then pbind (logging_info ''Conversation ended'') (\<lambda>_.
              preturn (Str (ai_response @ ''\<newline>Conversation ended.'')))
       else preturn (Str ai_response))"

fun after_trigger ::
  "'o python \<Rightarrow> ('o, 'w) simulator \<Rightarrow> string \<Rightarrow> 'o pyval dict option \<Rightarrow>
   ('o pyval, ('o, 'w) outside) py" where
  "after_trigger py self ai_response (Some (kv # kvs)) =
     pbind (lift (getitem (kv # kvs) ''action'')) (\<lambda>action.
     pbind (logging_info (''Trigger activated: '' @ str_val py action)) (\<lambda>_.
       lift (getitem (kv # kvs) ''message'')))"
| "after_trigger py self ai_response (Some []) = end_check py self ai_response"
| "after_trigger py self ai_response None = end_check py self ai_response"

definition trigger_check ::
  "'o python \<Rightarrow> ('o, 'w) simulator \<Rightarrow> string \<Rightarrow> ('o pyval, ('o, 'w) outside) py" where
  "trigger_check py self ai_response =
     pbind (lift (cfg_triggers (config self))) (\<lambda>trigger_config.
     pbind (invoke (DbnCheckTriggers trigger_config) RTrigger
              (check_triggers (dbn self) trigger_config)) (\<lambda>trigger.
       after_trigger py self ai_response trigger))"

definition run_turn ::
  "'o python \<Rightarrow> ('o, 'w) simulator \<Rightarrow> string \<Rightarrow> ('o pyval, ('o, 'w) outside) py" where
  "run_turn py self user_input =
     pbind (generate_context self user_input) (\<lambda>context.
     pbind (generate_plan py self context) (\<lambda>plan.
     pbind (generate_response py self context plan) (\<lambda>ai_response.
     pbind (analyze_interaction py self user_input ai_response context) (\<lambda>analysis_results.
     pbind (invoke (DbnUpdate analysis_results user_input ai_response) (\<lambda>_. RNone)
              (update (dbn self) analysis_results user_input ai_response)) (\<lambda>_.
     pbind (self_reflect py self context plan ai_response analysis_results) (\<lambda>_.
       trigger_check py self ai_response))))))"

definition run_interaction ::
  "'o python \<Rightarrow> ('o, 'w) simulator \<Rightarrow> string \<Rightarrow> ('o, 'w) outside \<Rightarrow>
   (pyexn + 'o pyval) \<times> ('o, 'w) simulator \<times> ('o, 'w) outside" where
  "run_interaction py self0 user_input x =
     (let self = self0\<lparr>turn_count := turn_count self0 + 1\<rparr> in
      case cfg_max_turns (config self) of
        Inl e \<Rightarrow> (Inl e, self, x)
      | Inr limit \<Rightarrow>
          if turn_count self > limit
          then (Inr (Str ''Maximum turns reached. Ending conversation.''), self, x)
          else (case run_turn py self user_input x of (r, x') \<Rightarrow> (r, self, x')))"

text \<open>
  A caller that calls \<^verbatim>\<open>run_interaction\<close> once for every input of a list, on the same
  simulator, whatever each call returns or raises; the outcomes are collected in order.
\<close>

fun run_interactions ::
  "'o python \<Rightarrow> ('o, 'w) simulator \<Rightarrow> string list \<Rightarrow> ('o, 'w) outside \<Rightarrow>
   (pyexn + 'o pyval) list \<times> ('o, 'w) simulator \<times> ('o, 'w) outside" where
  "run_interactions py self [] x = ([], self, x)"
| "run_interactions py self (u # us) x =
     (case run_interaction py self u x of
        (r, self', x') \<Rightarrow>
          (case run_interactions py self' us x' of
             (rs, self'', x'') \<Rightarrow> (r # rs, self'', x'')))"

section \<open>Reading the trace\<close>

text \<open>The calls a computation has added to the trace, given the states before and after.\<close>

definition new_calls ::
  "('o, 'w) outside \<Rightarrow> ('o, 'w) outside \<Rightarrow> ('o call \<times> 'o outcome) list" where
  "new_calls x x' = drop (length (trace x)) (trace x')"

datatype kind =
    KGetContext | KRetrieve | KIntegrate | KGenerate | KAnalyze | KUpdate | KLearn
  | KCheckTriggers | KLogging

fun kind_of :: "'o call \<Rightarrow> kind" where
  "kind_of DbnGetContext = KGetContext"
| "kind_of (RetrieverRetrieve u) = KRetrieve"
| "kind_of (IntegratorIntegrate u c) = KIntegrate"
| "kind_of (LlmGenerate p) = KGenerate"
| "kind_of (AnalyzerAnalyze n u r c) = KAnalyze"
| "kind_of (DbnUpdate a u r) = KUpdate"
| "kind_of (DbnLearnFromSuccess v) = KLearn"
| "kind_of (DbnCheckTriggers t) = KCheckTriggers"
| "kind_of (LoggingBasicConfig f l) = KLogging"
| "kind_of (LoggingInfo m) = KLogging"
| "kind_of (LoggingError m) = KLogging"

text \<open>The kinds of the collaborator calls of a trace, in order, the logging calls left out.\<close>

definition collaborator_kinds :: "('o call \<times> 'o outcome) list \<Rightarrow> kind list" where
  "collaborator_kinds evs = filter (\<lambda>k. k \<noteq> KLogging) (map (\<lambda>ev. kind_of (fst ev)) evs)"


text \<open>The dictionaries the analyzers returned, and the arguments of the learning calls.\<close>

fun returned_results :: "('o call \<times> 'o outcome) list \<Rightarrow> real dict list" where
  "returned_results [] = []"
| "returned_results ((c, Returned (RResults d)) # evs) = d # returned_results evs"
| "returned_results (ev # evs) = returned_results evs"

fun learn_calls :: "('o call \<times> 'o outcome) list \<Rightarrow> real list" where
  "learn_calls [] = []"
| "learn_calls ((DbnLearnFromSuccess v, out) # evs) = v # learn_calls evs"
| "learn_calls (ev # evs) = learn_calls evs"

text \<open>
  The number of requests to the LLM that returned, and the traces without a learning
  call and without a returned request to the LLM.
\<close>

fun generate_returns :: "('o call \<times> 'o outcome) list \<Rightarrow> nat" where
  "generate_returns [] = 0"
| "generate_returns ((LlmGenerate p, Returned v) # evs) = Suc (generate_returns evs)"
| "generate_returns (ev # evs) = generate_returns evs"

definition silent :: "('o call \<times> 'o outcome) list \<Rightarrow> bool" where
  "silent evs \<longleftrightarrow>
     (\<forall>ev\<in>set evs. kind_of (fst ev) \<noteq> KLearn \<and>
        (kind_of (fst ev) \<noteq> KGenerate \<or> (\<exists>e. snd ev = Raised e)))"

definition merged :: "real dict list \<Rightarrow> real dict" where
  "merged ds = fold (\<lambda>d acc. dict_update acc d) ds []"

text \<open>The context dictionary \<^verbatim>\<open>_generate_context\<close> builds from what the collaborators returned.\<close>

definition built_context ::
  "'o pyval dict \<Rightarrow> 'o pyval \<Rightarrow> 'o pyval \<Rightarrow> string \<Rightarrow> 'o pyval dict" where
  "built_context dbn_context retrieved integrated user_input =
     dict_set (dict_set (dict_set dbn_context ''retrieved_knowledge'' retrieved)
       ''integrated_knowledge'' integrated) ''user_input'' (Str user_input)"

subsection \<open>Two properties of a computation, stated on its trace\<close>


definition propagating :: "('a, ('o, 'w) outside) py \<Rightarrow> bool" where
  "propagating m \<longleftrightarrow>
     (\<forall>x r x'. m x = (r, x') \<longrightarrow>
        (\<exists>evs. trace x' = trace x @ evs \<and>
               (\<forall>c e. (c, Raised e) \<in> set evs \<longrightarrow>
                  (kind_of c = KAnalyze \<and> is_Exception e) \<or> r = Inl e)))"

section \<open>A small instance\<close>

text \<open>
  Collaborators with fixed answers, used to run the simulator on concrete inputs: the
  DBN answers the trigger check with \<open>trig\<close> and counts its updates in the outside
  state, the LLM answers every prompt with \<open>reply\<close>.  The runs are on ASCII text, where
  \<^verbatim>\<open>str.lower\<close> is \<open>lower\<close>.
\<close>

definition demo_py :: "nat python" where
  "demo_py = \<lparr>str_obj = (\<lambda>_. ''obj''), repr_obj = (\<lambda>_. ''obj''), repr_str = (\<lambda>s. s),
     repr_float = (\<lambda>_. ''0.9''), str_lower = lower, basicConfig = (\<lambda>_ _. None)\<rparr>"

definition demo_dbn :: "nat pyval dict option \<Rightarrow> (nat, nat) dbn_obj" where
  "demo_dbn trig = \<lparr>
     get_context = (\<lambda>w. (Inr [(''current_stage'', Str ''greeting''), (''metrics'', Obj 0)], w)),
     update = (\<lambda>_ _ _ w. (Inr (), Suc w)),
     check_triggers = (\<lambda>_ w. (Inr trig, w)),
     learn_from_success = (\<lambda>_ w. (Inr (), w))\<rparr>"

definition demo_llm :: "pyexn + string \<Rightarrow> nat llm_obj" where
  "demo_llm reply = \<lparr>generate = (\<lambda>_ w. (reply, w))\<rparr>"

definition demo_retriever :: "(nat, nat) retriever_obj" where
  "demo_retriever = \<lparr>retrieve = (\<lambda>_ w. (Inr (Obj 1), w))\<rparr>"

definition demo_integrator :: "(nat, nat) integrator_obj" where
  "demo_integrator = \<lparr>integrate = (\<lambda>_ _ w. (Inr (Str ''facts''), w))\<rparr>"

definition demo_analyzer :: "string \<Rightarrow> pyexn + real dict \<Rightarrow> (nat, nat) analyzer_obj" where
  "demo_analyzer name res = \<lparr>class_name = name, analyze = (\<lambda>_ _ _ w. (res, w))\<rparr>"

definition demo_config :: "int \<Rightarrow> string list \<Rightarrow> nat config_map" where
  "demo_config limit phrases = \<lparr>
     simulation = Some \<lparr>logging = Some \<lparr>file_path = Some ''sim.log'', level = Some ''INFO''\<rparr>,
                        max_turns = Some limit, end_phrases = Some phrases\<rparr>,
     triggers = Some (Obj 7)\<rparr>"

definition demo_sim ::
  "pyexn + string \<Rightarrow> nat pyval dict option \<Rightarrow> int \<Rightarrow> string list \<Rightarrow>
   (nat, nat) analyzer_obj list \<Rightarrow> int \<Rightarrow> (nat, nat) simulator" where
  "demo_sim reply trig limit phrases as n = \<lparr>
     dbn = demo_dbn trig, llm = demo_llm reply, retriever = demo_retriever,
     knowledge_integrator = demo_integrator, config = demo_config limit phrases,
     analyzers = as, turn_count = n\<rparr>"

definition demo_start :: "(nat, nat) outside" where
  "demo_start = \<lparr>world = 0, trace = []\<rparr>"

section \<open>The turn counter and the turn limit\<close>

lemmas demo_defs = demo_py_def demo_dbn_def demo_llm_def demo_retriever_def demo_integrator_def
  demo_analyzer_def demo_config_def demo_sim_def demo_start_def

lemmas cfg_defs = cfg_simulation_def cfg_logging_def cfg_file_path_def cfg_level_def
  cfg_max_turns_def cfg_end_phrases_def cfg_triggers_def

lemma run_interaction_limit:
  assumes "cfg_max_turns (config s) = Inr m" and "m < turn_count s + 1"
  shows "run_interaction py s u x =
           (Inr (Str ''Maximum turns reached. Ending conversation.''),
            s\<lparr>turn_count := turn_count s + 1\<rparr>, x)"
  using assms by (simp add: run_interaction_def)

lemma run_interaction_turn:
  assumes "cfg_max_turns (config s) = Inr m" and "\<not> m < turn_count s + 1"
  shows "run_interaction py s u x =
           (fst (run_turn py (s\<lparr>turn_count := turn_count s + 1\<rparr>) u x),
            s\<lparr>turn_count := turn_count s + 1\<rparr>,
            snd (run_turn py (s\<lparr>turn_count := turn_count s + 1\<rparr>) u x))"
  using assms by (simp add: run_interaction_def Let_def split: prod.splits)

lemma run_interaction_self:
  "fst (snd (run_interaction py s u x)) = s\<lparr>turn_count := turn_count s + 1\<rparr>"
  by (simp add: run_interaction_def Let_def split: sum.splits prod.splits)

lemma run_interactions_limit:
  assumes "cfg_max_turns (config s) = Inr m" and "m \<le> turn_count s"
  shows "run_interactions py s us x =
           (replicate (length us) (Inr (Str ''Maximum turns reached. Ending conversation.'')),
            s\<lparr>turn_count := turn_count s + int (length us)\<rparr>, x)"
  using assms
proof (induction us arbitrary: s)
  case Nil
  then show ?case by simp
next
  case (Cons u us)
  let ?s1 = "s\<lparr>turn_count := turn_count s + 1\<rparr>"
  have step: "run_interaction py s u x =
      (Inr (Str ''Maximum turns reached. Ending conversation.''), ?s1, x)"
    using Cons.prems by (intro run_interaction_limit) auto
  have "cfg_max_turns (config ?s1) = Inr m" "m \<le> turn_count ?s1"
    using Cons.prems by auto
  from Cons.IH [OF this] show ?case
    by (simp add: step)
qed

lemma run_interactions_self:
  "fst (snd (run_interactions py s us x)) = s\<lparr>turn_count := turn_count s + int (length us)\<rparr>"
proof (induction us arbitrary: s x)
  case Nil
  then show ?case by simp
next
  case (Cons u us)
  obtain r s1 x1 where step: "run_interaction py s u x = (r, s1, x1)"
    by (cases "run_interaction py s u x") auto
  then have s1: "s1 = s\<lparr>turn_count := turn_count s + 1\<rparr>"
    using run_interaction_self [of py s u x] by simp
  show ?case
    using Cons.IH [of s1 x1] by (auto simp: step s1 add.assoc split: prod.splits)
qed

lemma init_turn_count:
  assumes "init py d l r k cfg as x0 = (Inr s, x1)"
  shows "turn_count s = 0"
  using assms
  by (auto simp: init_def Let_def pbind_def preturn_def split: prod.splits sum.splits)

text \<open>
  Claim C1.  A call whose incremented turn counter exceeds
  \<^verbatim>\<open>config['simulation']['max_turns']\<close> returns the string
  \<^verbatim>\<open>"Maximum turns reached. Ending conversation."\<close>, and so does every later call on the
  simulator that call leaves behind, whatever the inputs and whatever the state of the
  collaborators by then.
\<close>

theorem max_turns_message_persists:
  assumes "cfg_max_turns (config s) = Inr m" and "m < turn_count s + 1"
    and "run_interaction py s u x = (r, s', x')"
  shows "r = Inr (Str ''Maximum turns reached. Ending conversation.'') \<and>
         (\<forall>us y. fst (run_interactions py s' us y) =
            replicate (length us) (Inr (Str ''Maximum turns reached. Ending conversation.'')))"
proof -
  have eq: "r = Inr (Str ''Maximum turns reached. Ending conversation.'')"
    "s' = s\<lparr>turn_count := turn_count s + 1\<rparr>"
    using run_interaction_limit [OF assms(1,2), of py u x] assms(3) by auto
  have "cfg_max_turns (config s') = Inr m" "m \<le> turn_count s'"
    using assms(1,2) eq(2) by auto
  then show ?thesis
    using eq(1) by (simp add: run_interactions_limit)
qed

theorem max_turns_message_persists_witness:
  "cfg_max_turns (config (demo_sim (Inr ''Goodbye!'') None 2 [''goodbye''] [] 2)) = Inr 2 \<and>
   (2::int) < turn_count (demo_sim (Inr ''Goodbye!'') None 2 [''goodbye''] [] 2) + 1 \<and>
   run_interaction demo_py (demo_sim (Inr ''Goodbye!'') None 2 [''goodbye''] [] 2) ''hi'' demo_start
     = (Inr (Str ''Maximum turns reached. Ending conversation.''),
        demo_sim (Inr ''Goodbye!'') None 2 [''goodbye''] [] 3, demo_start) \<and>
   fst (run_interactions demo_py (demo_sim (Inr ''Goodbye!'') None 2 [''goodbye''] [] 3)
          [''more'', ''and more''] demo_start)
     = [Inr (Str ''Maximum turns reached. Ending conversation.''),
        Inr (Str ''Maximum turns reached. Ending conversation.'')]"
proof -
  have h1: "cfg_max_turns (config (demo_sim (Inr ''Goodbye!'') None 2 [''goodbye''] [] 2)) = Inr 2"
    by (simp add: cfg_defs demo_defs)
  have h2: "(2::int) < turn_count (demo_sim (Inr ''Goodbye!'') None 2 [''goodbye''] [] 2) + 1"
    by (simp add: demo_defs)
  have h3: "run_interaction demo_py (demo_sim (Inr ''Goodbye!'') None 2 [''goodbye''] [] 2) ''hi'' demo_start
     = (Inr (Str ''Maximum turns reached. Ending conversation.''),
        demo_sim (Inr ''Goodbye!'') None 2 [''goodbye''] [] 3, demo_start)"
    by (simp add: run_interaction_def cfg_defs demo_defs)
  from max_turns_message_persists [OF h1 h2 h3] have
    "fst (run_interactions demo_py (demo_sim (Inr ''Goodbye!'') None 2 [''goodbye''] [] 3)
          [''more'', ''and more''] demo_start)
     = replicate (length [''more'', ''and more''])
         (Inr (Str ''Maximum turns reached. Ending conversation.''))"
    by blast
  with h1 h2 h3 show ?thesis by simp
qed

text \<open>
  Claim C7.  Every call of \<^verbatim>\<open>run_interaction\<close> leaves the turn counter one higher than it
  found it, whatever the call returns (the limit message, a trigger message, a response,
  with or without the end marker) and also when it raises; so after the calls for a list
  of \<open>n\<close> inputs on a simulator that \<^verbatim>\<open>__init__\<close> has just built, the counter is \<open>n\<close>.
\<close>

theorem turn_count_counts_calls:
  "turn_count (fst (snd (run_interaction py s u x))) = turn_count s + 1 \<and>
   (init py d l r k cfg as x0 = (Inr s0, x1) \<longrightarrow>
      turn_count (fst (snd (run_interactions py s0 us x1))) = int (length us))"
  using init_turn_count [of py d l r k cfg as x0 s0 x1]
  by (auto simp: run_interaction_self run_interactions_self)

theorem turn_count_counts_calls_witness:
  "init demo_py (demo_dbn None) (demo_llm (Inr ''Goodbye!'')) demo_retriever demo_integrator
       (demo_config 2 [''goodbye'']) [] demo_start
     = (Inr (demo_sim (Inr ''Goodbye!'') None 2 [''goodbye''] [] 0),
        \<lparr>world = 0, trace = [(LoggingBasicConfig ''sim.log'' ''INFO'', Returned RNone)]\<rparr>) \<and>
   turn_count (fst (snd (run_interactions demo_py (demo_sim (Inr ''Goodbye!'') None 2 [''goodbye''] [] 0)
       [''hi'', ''there'', ''again'']
       \<lparr>world = 0, trace = [(LoggingBasicConfig ''sim.log'' ''INFO'', Returned RNone)]\<rparr>))) = 3"
proof -
  have i: "init demo_py (demo_dbn None) (demo_llm (Inr ''Goodbye!'')) demo_retriever demo_integrator
       (demo_config 2 [''goodbye'']) [] demo_start
     = (Inr (demo_sim (Inr ''Goodbye!'') None 2 [''goodbye''] [] 0),
        \<lparr>world = 0, trace = [(LoggingBasicConfig ''sim.log'' ''INFO'', Returned RNone)]\<rparr>)"
    by (simp add: init_def setup_logging_def pbind_def preturn_def lift_def logged_def cfg_defs demo_defs)
  from turn_count_counts_calls [of demo_py _ _ _ "demo_dbn None" "demo_llm (Inr ''Goodbye!'')"
      demo_retriever demo_integrator "demo_config 2 [''goodbye'']" "[]" demo_start
      "demo_sim (Inr ''Goodbye!'') None 2 [''goodbye''] [] 0"
      "\<lparr>world = 0, trace = [(LoggingBasicConfig ''sim.log'' ''INFO'', Returned RNone)]\<rparr>"
      "[''hi'', ''there'', ''again'']"] i
  have "turn_count (fst (snd (run_interactions demo_py (demo_sim (Inr ''Goodbye!'') None 2 [''goodbye''] [] 0)
       [''hi'', ''there'', ''again'']
       \<lparr>world = 0, trace = [(LoggingBasicConfig ''sim.log'' ''INFO'', Returned RNone)]\<rparr>)))
     = int (length [''hi'', ''there'', ''again''])"
    by blast
  with i show ?thesis by (simp del: run_interactions.simps)
qed

text \<open>
  Claim C8.  Of the attributes of the simulator, a call of \<^verbatim>\<open>run_interaction\<close> changes
  \<^verbatim>\<open>turn_count\<close> only: \<^verbatim>\<open>dbn\<close>, \<^verbatim>\<open>llm\<close>, \<^verbatim>\<open>retriever\<close>, \<^verbatim>\<open>knowledge_integrator\<close>,
  \<^verbatim>\<open>config\<close> and \<^verbatim>\<open>analyzers\<close> are after the call what they were before it.
\<close>

theorem run_interaction_frame:
  "dbn (fst (snd (run_interaction py s u x))) = dbn s \<and>
   llm (fst (snd (run_interaction py s u x))) = llm s \<and>
   retriever (fst (snd (run_interaction py s u x))) = retriever s \<and>
   knowledge_integrator (fst (snd (run_interaction py s u x))) = knowledge_integrator s \<and>
   config (fst (snd (run_interaction py s u x))) = config s \<and>
   analyzers (fst (snd (run_interaction py s u x))) = analyzers s"
  by (simp add: run_interaction_self)

text \<open>
  Claim C9.  A call whose incremented turn counter exceeds the limit returns before any
  call leaves the simulator: the trace gets no entry (no LLM, retriever, integrator,
  analyzer or DBN call, and no logging either) and the outside state, the DBN's
  included, is the one the call started from.
\<close>

theorem limit_call_touches_nothing:
  assumes "cfg_max_turns (config s) = Inr m" and "m < turn_count s + 1"
  shows "snd (snd (run_interaction py s u x)) = x \<and>
         new_calls x (snd (snd (run_interaction py s u x))) = []"
  using assms by (simp add: run_interaction_limit new_calls_def)

theorem limit_call_touches_nothing_witness:
  "cfg_max_turns (config (demo_sim (Inr ''Goodbye!'') None 2 [''goodbye''] [] 2)) = Inr 2 \<and>
   (2::int) < turn_count (demo_sim (Inr ''Goodbye!'') None 2 [''goodbye''] [] 2) + 1 \<and>
   snd (snd (run_interaction demo_py (demo_sim (Inr ''Goodbye!'') None 2 [''goodbye''] [] 2) ''hi'' demo_start))
     = demo_start"
proof -
  have h1: "cfg_max_turns (config (demo_sim (Inr ''Goodbye!'') None 2 [''goodbye''] [] 2)) = Inr 2"
    by (simp add: cfg_defs demo_defs)
  have h2: "(2::int) < turn_count (demo_sim (Inr ''Goodbye!'') None 2 [''goodbye''] [] 2) + 1"
    by (simp add: demo_defs)
  from limit_call_touches_nothing [OF h1 h2, of demo_py "''hi''" demo_start] h1 h2
  show ?thesis by simp
qed

section \<open>The calls of a turn\<close>

lemma returned_results_append:
  "returned_results (xs @ ys) = returned_results xs @ returned_results ys"
  by (induction xs rule: returned_results.induct) auto

lemma learn_calls_append:
  "learn_calls (xs @ ys) = learn_calls xs @ learn_calls ys"
  by (induction xs rule: learn_calls.induct) auto


lemma new_calls_append: "trace x' = trace x @ evs \<Longrightarrow> new_calls x x' = evs"
  by (simp add: new_calls_def)

lemma invoke_eq:
  assumes "invoke c tag f x = (r, x')"
  shows "f (world x) = (r, world x') \<and> trace x' = trace x @ [(c, outcome_of tag r)]"
  using assms by (auto simp: invoke_def split: prod.splits)

lemma logged_eq:
  assumes "logged c x = (r, x')"
  shows "r = Inr () \<and> world x' = world x \<and> trace x' = trace x @ [(c, Returned RNone)]"
  using assms by (auto simp: logged_def)

lemma analyze_loop_run:
  assumes "analyze_loop py as ui resp ctx acc x = (r, x')"
  shows "\<exists>evs. trace x' = trace x @ evs \<and>
           (\<forall>ev\<in>set evs. kind_of (fst ev) = KAnalyze \<or> kind_of (fst ev) = KLogging) \<and>
           prefix (collaborator_kinds evs) (replicate (length as) KAnalyze) \<and>
           (\<forall>e. r = Inl e \<longrightarrow> \<not> is_Exception e \<and> (\<exists>c. (c, Raised e) \<in> set evs)) \<and>
           (\<forall>c e. (c, Raised e) \<in> set evs \<longrightarrow>
              kind_of c = KAnalyze \<and> (is_Exception e \<or> r = Inl e)) \<and>
           (\<forall>results. r = Inr results \<longrightarrow>
              map fst (filter (\<lambda>ev. kind_of (fst ev) = KAnalyze) evs)
                = map (\<lambda>a. AnalyzerAnalyze (class_name a) ui resp ctx) as \<and>
              results = fold (\<lambda>d acc. dict_update acc d) (returned_results evs) acc)"
  using assms
proof (induction as arbitrary: acc x)
  case Nil
  then show ?case by (auto simp: collaborator_kinds_def)
next
  case (Cons a as)
  let ?c = "AnalyzerAnalyze (class_name a) ui resp ctx"
  obtain r1 x1 where inv: "invoke ?c RResults (analyze a ui resp ctx) x = (r1, x1)"
    by (cases "invoke ?c RResults (analyze a ui resp ctx) x") auto
  then have t1: "trace x1 = trace x @ [(?c, outcome_of RResults r1)]"
    by (simp add: invoke_eq)
  show ?case
  proof (cases r1)
    case (Inr d)
    with Cons.prems inv have "analyze_loop py as ui resp ctx (dict_update acc d) x1 = (r, x')"
      by simp
    from Cons.IH [OF this] obtain evs where evs:
      "trace x' = trace x1 @ evs"
      "\<forall>ev\<in>set evs. kind_of (fst ev) = KAnalyze \<or> kind_of (fst ev) = KLogging"
      "prefix (collaborator_kinds evs) (replicate (length as) KAnalyze)"
      "\<forall>e. r = Inl e \<longrightarrow> \<not> is_Exception e \<and> (\<exists>c. (c, Raised e) \<in> set evs)"
      "\<forall>c e. (c, Raised e) \<in> set evs \<longrightarrow> kind_of c = KAnalyze \<and> (is_Exception e \<or> r = Inl e)"
      "\<forall>results. r = Inr results \<longrightarrow>
              map fst (filter (\<lambda>ev. kind_of (fst ev) = KAnalyze) evs)
                = map (\<lambda>a. AnalyzerAnalyze (class_name a) ui resp ctx) as \<and>
              results = fold (\<lambda>d acc. dict_update acc d) (returned_results evs) (dict_update acc d)"
      by blast
    let ?evs = "(?c, Returned (RResults d)) # evs"
    have "trace x' = trace x @ ?evs"
      using evs(1) t1 Inr by (simp add: outcome_of_def)
    moreover have "\<forall>ev\<in>set ?evs. kind_of (fst ev) = KAnalyze \<or> kind_of (fst ev) = KLogging"
      using evs(2) by simp
    moreover have "prefix (collaborator_kinds ?evs) (replicate (length (a # as)) KAnalyze)"
      using evs(3) by (simp add: collaborator_kinds_def)
    moreover have "\<forall>e. r = Inl e \<longrightarrow> \<not> is_Exception e \<and> (\<exists>c. (c, Raised e) \<in> set ?evs)"
      using evs(4) by auto
    moreover have "\<forall>c e. (c, Raised e) \<in> set ?evs \<longrightarrow>
        kind_of c = KAnalyze \<and> (is_Exception e \<or> r = Inl e)"
      using evs(5) by auto
    moreover have "\<forall>results. r = Inr results \<longrightarrow>
              map fst (filter (\<lambda>ev. kind_of (fst ev) = KAnalyze) ?evs)
                = map (\<lambda>a. AnalyzerAnalyze (class_name a) ui resp ctx) (a # as) \<and>
              results = fold (\<lambda>d acc. dict_update acc d) (returned_results ?evs) acc"
      using evs(6) by simp
    ultimately show ?thesis by blast
  next
    case (Inl e)
    show ?thesis
    proof (cases "is_Exception e")
      case True
      let ?l = "LoggingError (''Error in '' @ class_name a @ '': '' @ exn_str py e)"
      obtain u x2 where lg: "logging_error (''Error in '' @ class_name a @ '': '' @ exn_str py e) x1 = (u, x2)"
        by (cases "logging_error (''Error in '' @ class_name a @ '': '' @ exn_str py e) x1") auto
      then have t2: "trace x2 = trace x1 @ [(?l, Returned RNone)]"
        by (simp add: logging_error_def logged_eq)
      from Cons.prems inv Inl True lg
      have "analyze_loop py as ui resp ctx acc x2 = (r, x')"
        by simp
      from Cons.IH [OF this] obtain evs where evs:
        "trace x' = trace x2 @ evs"
        "\<forall>ev\<in>set evs. kind_of (fst ev) = KAnalyze \<or> kind_of (fst ev) = KLogging"
        "prefix (collaborator_kinds evs) (replicate (length as) KAnalyze)"
        "\<forall>e. r = Inl e \<longrightarrow> \<not> is_Exception e \<and> (\<exists>c. (c, Raised e) \<in> set evs)"
        "\<forall>c e. (c, Raised e) \<in> set evs \<longrightarrow> kind_of c = KAnalyze \<and> (is_Exception e \<or> r = Inl e)"
        "\<forall>results. r = Inr results \<longrightarrow>
              map fst (filter (\<lambda>ev. kind_of (fst ev) = KAnalyze) evs)
                = map (\<lambda>a. AnalyzerAnalyze (class_name a) ui resp ctx) as \<and>
              results = fold (\<lambda>d acc. dict_update acc d) (returned_results evs) acc"
        by blast
      let ?evs = "(?c, Raised e) # (?l, Returned RNone) # evs"
      have "trace x' = trace x @ ?evs"
        using evs(1) t1 t2 Inl by (simp add: outcome_of_def)
      moreover have "\<forall>ev\<in>set ?evs. kind_of (fst ev) = KAnalyze \<or> kind_of (fst ev) = KLogging"
        using evs(2) by simp
      moreover have "prefix (collaborator_kinds ?evs) (replicate (length (a # as)) KAnalyze)"
        using evs(3) by (simp add: collaborator_kinds_def)
      moreover have "\<forall>e. r = Inl e \<longrightarrow> \<not> is_Exception e \<and> (\<exists>c. (c, Raised e) \<in> set ?evs)"
        using evs(4) by auto
      moreover have "\<forall>c e'. (c, Raised e') \<in> set ?evs \<longrightarrow>
          kind_of c = KAnalyze \<and> (is_Exception e' \<or> r = Inl e')"
        using evs(5) True by auto
      moreover have "\<forall>results. r = Inr results \<longrightarrow>
              map fst (filter (\<lambda>ev. kind_of (fst ev) = KAnalyze) ?evs)
                = map (\<lambda>a. AnalyzerAnalyze (class_name a) ui resp ctx) (a # as) \<and>
              results = fold (\<lambda>d acc. dict_update acc d) (returned_results ?evs) acc"
        using evs(6) by simp
      ultimately show ?thesis by blast
    next
      case False
      with Cons.prems inv Inl have res: "r = Inl e" "x' = x1"
        by auto
      let ?evs = "[(?c, Raised e)]"
      have "trace x' = trace x @ ?evs"
        using t1 res Inl by (simp add: outcome_of_def)
      moreover have "prefix (collaborator_kinds ?evs) (replicate (length (a # as)) KAnalyze)"
        by (simp add: collaborator_kinds_def)
      ultimately show ?thesis
        using res False by (intro exI [of _ ?evs]) auto
    qed
  qed
qed

lemma pbind_run:
  assumes "pbind m f x = (r, x')"
  obtains (raised) e where "m x = (Inl e, x')" "r = Inl e"
        | (returned) a x1 where "m x = (Inr a, x1)" "f a x1 = (r, x')"
  using assms by (auto simp: pbind_def split: prod.splits sum.splits)

subsection \<open>Order\<close>



















subsection \<open>Exceptions\<close>

lemma propagatingD:
  assumes "propagating m" and "m x = (r, x')"
  obtains evs where "trace x' = trace x @ evs"
    and "\<And>c e. (c, Raised e) \<in> set evs \<Longrightarrow> (kind_of c = KAnalyze \<and> is_Exception e) \<or> r = Inl e"
proof -
  from assms have "\<exists>evs. trace x' = trace x @ evs \<and>
               (\<forall>c e. (c, Raised e) \<in> set evs \<longrightarrow>
                  (kind_of c = KAnalyze \<and> is_Exception e) \<or> r = Inl e)"
    unfolding propagating_def by simp
  then obtain evs where "trace x' = trace x @ evs"
    "\<forall>c e. (c, Raised e) \<in> set evs \<longrightarrow> (kind_of c = KAnalyze \<and> is_Exception e) \<or> r = Inl e"
    by (elim exE conjE)
  then show thesis
    by (intro that [of evs]) auto
qed

lemma propagating_preturn: "propagating (preturn a)"
  by (simp add: propagating_def preturn_def)

lemma propagating_lift: "propagating (lift r)"
  by (simp add: propagating_def lift_def)

lemma propagating_logged: "propagating (logged c)"
  by (auto simp: propagating_def logged_def)

lemma propagating_invoke: "propagating (invoke c tag f)"
  by (auto simp: propagating_def invoke_def outcome_of_def split: prod.splits sum.splits)

lemma propagating_pbind:
  assumes "propagating m" and "\<And>a. propagating (f a)"
  shows "propagating (pbind m f)"
  unfolding propagating_def
proof (intro allI impI)
  fix x r x'
  assume run: "pbind m f x = (r, x')"
  from run show "\<exists>evs. trace x' = trace x @ evs \<and>
               (\<forall>c e. (c, Raised e) \<in> set evs \<longrightarrow>
                  (kind_of c = KAnalyze \<and> is_Exception e) \<or> r = Inl e)"
  proof (cases rule: pbind_run)
    case (raised e)
    from propagatingD [OF assms(1) raised(1)]
    obtain evs where e1: "trace x' = trace x @ evs"
      "\<And>c e'. (c, Raised e') \<in> set evs \<Longrightarrow> (kind_of c = KAnalyze \<and> is_Exception e') \<or> e = e'"
      by (metis sum.inject(1))
    have "\<forall>c e'. (c, Raised e') \<in> set evs \<longrightarrow>
        (kind_of c = KAnalyze \<and> is_Exception e') \<or> r = Inl e'"
      using e1(2) raised(2) by auto
    with e1(1) show ?thesis by blast
  next
    case (returned a x1)
    from propagatingD [OF assms(1) returned(1)]
    obtain evs1 where e1: "trace x1 = trace x @ evs1"
      "\<And>c e. (c, Raised e) \<in> set evs1 \<Longrightarrow> kind_of c = KAnalyze \<and> is_Exception e"
      by (metis Inl_Inr_False)
    from propagatingD [OF assms(2) returned(2)]
    obtain evs2 where e2: "trace x' = trace x1 @ evs2"
      "\<And>c e. (c, Raised e) \<in> set evs2 \<Longrightarrow> (kind_of c = KAnalyze \<and> is_Exception e) \<or> r = Inl e"
      by metis
    have "trace x' = trace x @ (evs1 @ evs2)"
      using e1(1) e2(1) by simp
    moreover have "\<forall>c e. (c, Raised e) \<in> set (evs1 @ evs2) \<longrightarrow>
        (kind_of c = KAnalyze \<and> is_Exception e) \<or> r = Inl e"
      using e1(2) e2(2) by auto
    ultimately show ?thesis by blast
  qed
qed

lemma propagating_analyze_loop: "propagating (analyze_loop py as ui resp ctx acc)"
  unfolding propagating_def
proof (intro allI impI)
  fix x r x'
  assume run: "analyze_loop py as ui resp ctx acc x = (r, x')"
  from analyze_loop_run [OF run] obtain evs where evs:
    "trace x' = trace x @ evs"
    "\<forall>c e. (c, Raised e) \<in> set evs \<longrightarrow> kind_of c = KAnalyze \<and> (is_Exception e \<or> r = Inl e)"
    by blast
  then show "\<exists>evs. trace x' = trace x @ evs \<and>
               (\<forall>c e. (c, Raised e) \<in> set evs \<longrightarrow>
                  (kind_of c = KAnalyze \<and> is_Exception e) \<or> r = Inl e)"
    by blast
qed

lemma propagating_end_check: "propagating (end_check py self resp)"
  unfolding end_check_def logging_info_def
  by (intro propagating_pbind propagating_lift)
     (auto intro!: propagating_pbind propagating_logged propagating_preturn)

lemma propagating_after_trigger: "propagating (after_trigger py self resp trig)"
proof (cases trig)
  case None
  then show ?thesis by (simp add: propagating_end_check)
next
  case (Some t)
  show ?thesis
  proof (cases t)
    case Nil
    with Some show ?thesis by (simp add: propagating_end_check)
  next
    case (Cons kv kvs)
    have "propagating (after_trigger py self resp (Some (kv # kvs)))"
      unfolding after_trigger.simps logging_info_def
      by (intro propagating_pbind propagating_lift propagating_logged)
    with Some Cons show ?thesis by simp
  qed
qed

lemma propagating_run_turn: "propagating (run_turn py self ui)"
  unfolding run_turn_def trigger_check_def self_reflect_def Let_def logging_info_def
    analyze_interaction_def generate_response_def generate_plan_def generate_context_def
  by (intro propagating_pbind propagating_lift propagating_logged propagating_invoke
      propagating_preturn propagating_analyze_loop propagating_after_trigger)

lemmas run_defs = pbind_def preturn_def lift_def invoke_def logged_def logging_info_def
  logging_error_def outcome_of_def ebind_def getitem_def dict_get_def dict_set_def dict_update_def
  str_val_def repr_val_def str_dict_def exn_str_def lower_def lower_char_def

lemmas turn_defs = run_turn_def trigger_check_def end_check_def self_reflect_def
  analyze_interaction_def generate_response_def generate_plan_def generate_context_def
  plan_prompt_def response_prompt_def reflection_prompt_def

lemma run_interaction_cases:
  assumes "run_interaction py s u x = (r, s', x')"
  obtains (early) "x' = x"
        | (turn) m where "cfg_max_turns (config s) = Inr m" and "\<not> m < turn_count s + 1"
            and "run_turn py (s\<lparr>turn_count := turn_count s + 1\<rparr>) u x = (r, x')"
  using assms
  by (auto simp: run_interaction_def Let_def split: sum.splits if_splits prod.splits)

subsection \<open>What each piece of a turn adds to the trace\<close>

lemma generate_context_run:
  assumes "generate_context self ui x = (r, x1)"
  shows "\<exists>evs. trace x1 = trace x @ evs \<and>
           (\<forall>ev\<in>set evs. kind_of (fst ev) \<noteq> KCheckTriggers) \<and>
           (\<forall>ctx. r = Inr ctx \<longrightarrow>
              (\<exists>dctx rk ik. ctx = built_context dctx rk ik ui \<and>
                 evs = [(DbnGetContext, Returned (RDict dctx)),
                        (RetrieverRetrieve ui, Returned (RVal rk)),
                        (IntegratorIntegrate ui dctx, Returned (RVal ik))]))"
  using assms
  by (auto simp: generate_context_def built_context_def pbind_def preturn_def invoke_def
      outcome_of_def split: prod.splits sum.splits)

lemma generate_plan_run:
  assumes "generate_plan py self ctx x = (r, x1)"
  shows "\<exists>evs. trace x1 = trace x @ evs \<and>
           (\<forall>ev\<in>set evs. kind_of (fst ev) \<noteq> KCheckTriggers) \<and>
           (\<forall>plan. r = Inr plan \<longrightarrow>
              (\<exists>p. plan_prompt py ctx = Inr p \<and> evs = [(LlmGenerate p, Returned (RStr plan))]))"
  using assms
  by (auto simp: generate_plan_def pbind_def lift_def invoke_def outcome_of_def
      split: prod.splits sum.splits)

lemma generate_response_run:
  assumes "generate_response py self ctx plan x = (r, x1)"
  shows "\<exists>evs. trace x1 = trace x @ evs \<and>
           (\<forall>ev\<in>set evs. kind_of (fst ev) \<noteq> KCheckTriggers) \<and>
           (\<forall>resp. r = Inr resp \<longrightarrow>
              (\<exists>p. response_prompt py ctx plan = Inr p \<and>
                 evs = [(LlmGenerate p, Returned (RStr resp))]))"
  using assms
  by (auto simp: generate_response_def pbind_def lift_def invoke_def outcome_of_def
      split: prod.splits sum.splits)

lemma analyze_interaction_run:
  assumes "analyze_interaction py self ui resp ctx x = (r, x1)"
  shows "\<exists>evs. trace x1 = trace x @ evs \<and>
           (\<forall>ev\<in>set evs. kind_of (fst ev) = KAnalyze \<or> kind_of (fst ev) = KLogging) \<and>
           (\<forall>results. r = Inr results \<longrightarrow>
              map fst (filter (\<lambda>ev. kind_of (fst ev) = KAnalyze) evs)
                = map (\<lambda>a. AnalyzerAnalyze (class_name a) ui resp ctx) (analyzers self) \<and>
              results = merged (returned_results evs))"
proof -
  from assms have "analyze_loop py (analyzers self) ui resp ctx [] x = (r, x1)"
    by (simp add: analyze_interaction_def)
  from analyze_loop_run [OF this] show ?thesis
    unfolding merged_def by blast
qed

lemma self_reflect_run:
  assumes "self_reflect py self ctx plan resp results x = (r, x1)"
  shows "\<exists>evs. trace x1 = trace x @ evs \<and>
           (\<forall>ev\<in>set evs. kind_of (fst ev) \<noteq> KCheckTriggers) \<and>
           (\<forall>u. r = Inr u \<longrightarrow>
              (\<exists>reflection.
                 evs = [(LlmGenerate (reflection_prompt py ctx plan resp results),
                           Returned (RStr reflection)),
                        (LoggingInfo (''Self-reflection: '' @ reflection), Returned RNone),
                        (DbnLearnFromSuccess (dict_get results ''satisfaction_score'' 0.5),
                           Returned RNone)]))"
  using assms
  by (auto simp: self_reflect_def Let_def pbind_def logging_info_def logged_def invoke_def
      outcome_of_def split: prod.splits sum.splits)

lemma end_check_run:
  assumes "end_check py self resp x = (r, x')"
  shows "\<exists>evs. trace x' = trace x @ evs \<and> world x' = world x \<and>
           (\<forall>ev\<in>set evs. kind_of (fst ev) = KLogging \<and> snd ev = Returned RNone)"
  using assms
  by (auto simp: end_check_def pbind_def lift_def preturn_def logging_info_def logged_def
      split: prod.splits sum.splits if_splits)

lemma after_trigger_run:
  assumes "after_trigger py self resp trig x = (r, x')"
  shows "\<exists>evs. trace x' = trace x @ evs \<and> world x' = world x \<and>
           (\<forall>ev\<in>set evs. kind_of (fst ev) = KLogging \<and> snd ev = Returned RNone)"
proof (cases trig)
  case None
  with assms show ?thesis by (simp add: end_check_run)
next
  case (Some t)
  show ?thesis
  proof (cases t)
    case Nil
    with Some assms show ?thesis by (simp add: end_check_run)
  next
    case (Cons kv kvs)
    with Some assms show ?thesis
      by (auto simp: pbind_def lift_def logging_info_def logged_def
          split: prod.splits sum.splits)
  qed
qed

lemma trigger_check_run:
  assumes "trigger_check py self resp x = (r, x')"
  shows "(\<exists>e. r = Inl e \<and> (x' = x \<or> (\<exists>tc. trace x' = trace x @ [(DbnCheckTriggers tc, Raised e)]))) \<or>
         (\<exists>tc trig x9. cfg_triggers (config self) = Inr tc \<and>
            trace x9 = trace x @ [(DbnCheckTriggers tc, Returned (RTrigger trig))] \<and>
            after_trigger py self resp trig x9 = (r, x'))"
  using assms unfolding trigger_check_def
proof (cases rule: pbind_run)
  case (raised e)
  then show ?thesis by (auto simp: lift_def)
next
  case (returned tc x1)
  then have tc: "cfg_triggers (config self) = Inr tc" "x1 = x"
    by (auto simp: lift_def)
  from returned(2) show ?thesis
  proof (cases rule: pbind_run)
    case (raised e)
    with tc show ?thesis
      by (auto simp: outcome_of_def dest!: invoke_eq)
  next
    case (returned trig x9)
    with tc show ?thesis
      by (auto simp: outcome_of_def dest!: invoke_eq)
  qed
qed

lemma no_check_returned:
  assumes "trace y = trace x @ pre" and "trace x' = trace y @ evs"
    and "\<forall>ev\<in>set pre. kind_of (fst ev) \<noteq> KCheckTriggers"
    and "\<forall>ev\<in>set evs. kind_of (fst ev) \<noteq> KCheckTriggers \<or> (\<exists>e. snd ev = Raised e)"
  shows "(DbnCheckTriggers tc, Returned (RTrigger trig)) \<notin> set (new_calls x x')"
proof -
  have "new_calls x x' = pre @ evs"
    using assms(1,2) by (simp add: new_calls_def)
  with assms(3,4) show ?thesis by fastforce
qed

lemma run_turn_reached:
  assumes run: "run_turn py self ui x = (r, x')"
    and reach: "(\<exists>v. r = Inr v) \<or>
                (\<exists>tc trig. (DbnCheckTriggers tc, Returned (RTrigger trig)) \<in> set (new_calls x x'))"
  shows "\<exists>dctx rk ik p1 plan p2 resp aevs reflection tc trig x9.
           plan_prompt py (built_context dctx rk ik ui) = Inr p1 \<and>
           response_prompt py (built_context dctx rk ik ui) plan = Inr p2 \<and>
           map fst (filter (\<lambda>ev. kind_of (fst ev) = KAnalyze) aevs)
             = map (\<lambda>a. AnalyzerAnalyze (class_name a) ui resp (built_context dctx rk ik ui))
                 (analyzers self) \<and>
           (\<forall>ev\<in>set aevs. kind_of (fst ev) = KAnalyze \<or> kind_of (fst ev) = KLogging) \<and>
           cfg_triggers (config self) = Inr tc \<and>
           trace x9 = trace x
             @ [(DbnGetContext, Returned (RDict dctx)),
                (RetrieverRetrieve ui, Returned (RVal rk)),
                (IntegratorIntegrate ui dctx, Returned (RVal ik)),
                (LlmGenerate p1, Returned (RStr plan)),
                (LlmGenerate p2, Returned (RStr resp))]
             @ aevs
             @ [(DbnUpdate (merged (returned_results aevs)) ui resp, Returned RNone),
                (LlmGenerate (reflection_prompt py (built_context dctx rk ik ui) plan resp
                     (merged (returned_results aevs))), Returned (RStr reflection)),
                (LoggingInfo (''Self-reflection: '' @ reflection), Returned RNone),
                (DbnLearnFromSuccess
                   (dict_get (merged (returned_results aevs)) ''satisfaction_score'' 0.5),
                 Returned RNone),
                (DbnCheckTriggers tc, Returned (RTrigger trig))] \<and>
           after_trigger py self resp trig x9 = (r, x')"
proof -
  from run show ?thesis
    unfolding run_turn_def
  proof (cases rule: pbind_run)
    case (raised e)
    from generate_context_run [OF raised(1)] obtain evs where
      ev: "trace x' = trace x @ evs" "\<forall>ev\<in>set evs. kind_of (fst ev) \<noteq> KCheckTriggers"
      by auto
    have "trace x = trace x @ []" by simp
    from no_check_returned [OF this ev(1)] ev(2) reach raised(2)
    show ?thesis by auto
  next
    case c1: (returned ctx x1)
    from generate_context_run [OF c1(1)] obtain dctx rk ik where
      ctx: "ctx = built_context dctx rk ik ui" and
      t1: "trace x1 = trace x @ [(DbnGetContext, Returned (RDict dctx)),
      (RetrieverRetrieve ui, Returned (RVal rk)),
      (IntegratorIntegrate ui dctx, Returned (RVal ik))]"
      by auto
    from c1(2) show ?thesis
    proof (cases rule: pbind_run)
      case (raised e)
    from generate_plan_run [OF raised(1)] obtain evs where
      ev: "trace x' = trace x1 @ evs" "\<forall>ev\<in>set evs. kind_of (fst ev) \<noteq> KCheckTriggers"
      by auto
    have "\<forall>ev\<in>set ([(DbnGetContext, Returned (RDict dctx)),
      (RetrieverRetrieve ui, Returned (RVal rk)),
      (IntegratorIntegrate ui dctx, Returned (RVal ik))]). kind_of (fst ev) \<noteq> KCheckTriggers"
      by simp
    from no_check_returned [OF t1 ev(1) this] ev(2) reach raised(2)
    show ?thesis by auto
    next
      case c2: (returned plan x2)
      from generate_plan_run [OF c2(1)] obtain p1 where
        p1: "plan_prompt py ctx = Inr p1" and
        "trace x2 = trace x1 @ [(LlmGenerate p1, Returned (RStr plan))]"
        by auto
      with t1 have t2: "trace x2 = trace x @ [(DbnGetContext, Returned (RDict dctx)),
      (RetrieverRetrieve ui, Returned (RVal rk)),
      (IntegratorIntegrate ui dctx, Returned (RVal ik)),
      (LlmGenerate p1, Returned (RStr plan))]"
        by simp
      from c2(2) show ?thesis
      proof (cases rule: pbind_run)
        case (raised e)
    from generate_response_run [OF raised(1)] obtain evs where
      ev: "trace x' = trace x2 @ evs" "\<forall>ev\<in>set evs. kind_of (fst ev) \<noteq> KCheckTriggers"
      by auto
    have "\<forall>ev\<in>set ([(DbnGetContext, Returned (RDict dctx)),
      (RetrieverRetrieve ui, Returned (RVal rk)),
      (IntegratorIntegrate ui dctx, Returned (RVal ik)),
      (LlmGenerate p1, Returned (RStr plan))]). kind_of (fst ev) \<noteq> KCheckTriggers"
      by simp
    from no_check_returned [OF t2 ev(1) this] ev(2) reach raised(2)
    show ?thesis by auto
      next
        case c3: (returned resp x3)
        from generate_response_run [OF c3(1)] obtain p2 where
          p2: "response_prompt py ctx plan = Inr p2" and
          "trace x3 = trace x2 @ [(LlmGenerate p2, Returned (RStr resp))]"
          by auto
        with t2 have t3: "trace x3 = trace x @ [(DbnGetContext, Returned (RDict dctx)),
      (RetrieverRetrieve ui, Returned (RVal rk)),
      (IntegratorIntegrate ui dctx, Returned (RVal ik)),
      (LlmGenerate p1, Returned (RStr plan)),
      (LlmGenerate p2, Returned (RStr resp))]"
          by simp
        from c3(2) show ?thesis
        proof (cases rule: pbind_run)
          case (raised e)
          from analyze_interaction_run [OF raised(1)] obtain evs where
            ev: "trace x' = trace x3 @ evs"
            "\<forall>ev\<in>set evs. kind_of (fst ev) = KAnalyze \<or> kind_of (fst ev) = KLogging"
            by auto
          have "\<forall>ev\<in>set ([(DbnGetContext, Returned (RDict dctx)),
      (RetrieverRetrieve ui, Returned (RVal rk)),
      (IntegratorIntegrate ui dctx, Returned (RVal ik)),
      (LlmGenerate p1, Returned (RStr plan)),
      (LlmGenerate p2, Returned (RStr resp))]). kind_of (fst ev) \<noteq> KCheckTriggers"
            by simp
          moreover from ev(2) have "\<forall>ev\<in>set evs. kind_of (fst ev) \<noteq> KCheckTriggers"
            by auto
          ultimately show ?thesis
            using no_check_returned [OF t3 ev(1)] reach raised(2) by auto
        next
          case c4: (returned results x4)
          from analyze_interaction_run [OF c4(1)] obtain aevs where
            "trace x4 = trace x3 @ aevs" and
            ak: "\<forall>ev\<in>set aevs. kind_of (fst ev) = KAnalyze \<or> kind_of (fst ev) = KLogging" and
            am: "map fst (filter (\<lambda>ev. kind_of (fst ev) = KAnalyze) aevs)
                = map (\<lambda>a. AnalyzerAnalyze (class_name a) ui resp ctx) (analyzers self)" and
            res: "results = merged (returned_results aevs)"
            by blast
          with t3 have t4: "trace x4 = trace x @ [(DbnGetContext, Returned (RDict dctx)),
      (RetrieverRetrieve ui, Returned (RVal rk)),
      (IntegratorIntegrate ui dctx, Returned (RVal ik)),
      (LlmGenerate p1, Returned (RStr plan)),
      (LlmGenerate p2, Returned (RStr resp))] @ aevs"
            by simp
          have aq: "\<forall>ev\<in>set aevs. kind_of (fst ev) \<noteq> KCheckTriggers"
            using ak by auto
          from c4(2) show ?thesis
          proof (cases rule: pbind_run)
            case (raised e)
            from invoke_eq [OF raised(1)]
            have ev: "trace x' = trace x4 @ [(DbnUpdate results ui resp, Raised e)]"
              by (simp add: outcome_of_def)
            have "\<forall>ev\<in>set ([(DbnGetContext, Returned (RDict dctx)),
      (RetrieverRetrieve ui, Returned (RVal rk)),
      (IntegratorIntegrate ui dctx, Returned (RVal ik)),
      (LlmGenerate p1, Returned (RStr plan)),
      (LlmGenerate p2, Returned (RStr resp))] @ aevs). kind_of (fst ev) \<noteq> KCheckTriggers"
              using aq by simp
            from no_check_returned [OF t4 ev this] reach raised(2)
            show ?thesis by auto
          next
            case c5: (returned u5 x5)
            from invoke_eq [OF c5(1)]
            have "trace x5 = trace x4 @ [(DbnUpdate results ui resp, Returned RNone)]"
              by (simp add: outcome_of_def)
            with t4 have t5: "trace x5 = trace x @ [(DbnGetContext, Returned (RDict dctx)),
      (RetrieverRetrieve ui, Returned (RVal rk)),
      (IntegratorIntegrate ui dctx, Returned (RVal ik)),
      (LlmGenerate p1, Returned (RStr plan)),
      (LlmGenerate p2, Returned (RStr resp))] @ aevs @ [(DbnUpdate results ui resp, Returned RNone)]"
              by simp
            from c5(2) show ?thesis
            proof (cases rule: pbind_run)
              case (raised e)
    from self_reflect_run [OF raised(1)] obtain evs where
      ev: "trace x' = trace x5 @ evs" "\<forall>ev\<in>set evs. kind_of (fst ev) \<noteq> KCheckTriggers"
      by auto
    have "\<forall>ev\<in>set ([(DbnGetContext, Returned (RDict dctx)),
      (RetrieverRetrieve ui, Returned (RVal rk)),
      (IntegratorIntegrate ui dctx, Returned (RVal ik)),
      (LlmGenerate p1, Returned (RStr plan)),
      (LlmGenerate p2, Returned (RStr resp))] @ aevs @ [(DbnUpdate results ui resp, Returned RNone)]). kind_of (fst ev) \<noteq> KCheckTriggers"
      using aq by simp
    from no_check_returned [OF t5 ev(1) this] ev(2) reach raised(2)
    show ?thesis by auto
            next
              case c6: (returned u6 x6)
              from self_reflect_run [OF c6(1)] obtain reflection where
                "trace x6 = trace x5 @ [(LlmGenerate (reflection_prompt py ctx plan resp results), Returned (RStr reflection)),
      (LoggingInfo (''Self-reflection: '' @ reflection), Returned RNone),
      (DbnLearnFromSuccess (dict_get results ''satisfaction_score'' 0.5), Returned RNone)]"
                by auto
              with t5 have t6: "trace x6 = trace x @ [(DbnGetContext, Returned (RDict dctx)),
      (RetrieverRetrieve ui, Returned (RVal rk)),
      (IntegratorIntegrate ui dctx, Returned (RVal ik)),
      (LlmGenerate p1, Returned (RStr plan)),
      (LlmGenerate p2, Returned (RStr resp))] @ aevs @ [(DbnUpdate results ui resp, Returned RNone),
      (LlmGenerate (reflection_prompt py ctx plan resp results), Returned (RStr reflection)),
      (LoggingInfo (''Self-reflection: '' @ reflection), Returned RNone),
      (DbnLearnFromSuccess (dict_get results ''satisfaction_score'' 0.5), Returned RNone)]"
                by simp
              have q6: "\<forall>ev\<in>set ([(DbnGetContext, Returned (RDict dctx)),
      (RetrieverRetrieve ui, Returned (RVal rk)),
      (IntegratorIntegrate ui dctx, Returned (RVal ik)),
      (LlmGenerate p1, Returned (RStr plan)),
      (LlmGenerate p2, Returned (RStr resp))] @ aevs @ [(DbnUpdate results ui resp, Returned RNone),
      (LlmGenerate (reflection_prompt py ctx plan resp results), Returned (RStr reflection)),
      (LoggingInfo (''Self-reflection: '' @ reflection), Returned RNone),
      (DbnLearnFromSuccess (dict_get results ''satisfaction_score'' 0.5), Returned RNone)]). kind_of (fst ev) \<noteq> KCheckTriggers"
                using aq by simp
              from trigger_check_run [OF c6(2)] show ?thesis
              proof (elim disjE exE conjE)
                fix e
                assume e: "r = Inl e" and "x' = x6"
                then have "trace x' = trace x6 @ []" by simp
                from no_check_returned [OF t6 this q6] reach e
                show ?thesis by auto
              next
                fix e tc
                assume e: "r = Inl e"
                  and ev: "trace x' = trace x6 @ [(DbnCheckTriggers tc, Raised e)]"
                from no_check_returned [OF t6 ev q6] reach e
                show ?thesis by auto
              next
                fix tc trig x9
                assume tc: "cfg_triggers (config self) = Inr tc"
                  and t9: "trace x9 = trace x6 @ [(DbnCheckTriggers tc, Returned (RTrigger trig))]"
                  and fin: "after_trigger py self resp trig x9 = (r, x')"
                from t6 t9 have "trace x9 = trace x
                   @ [(DbnGetContext, Returned (RDict dctx)),
      (RetrieverRetrieve ui, Returned (RVal rk)),
      (IntegratorIntegrate ui dctx, Returned (RVal ik)),
      (LlmGenerate p1, Returned (RStr plan)),
      (LlmGenerate p2, Returned (RStr resp))]
                   @ aevs
                   @ [(DbnUpdate results ui resp, Returned RNone),
      (LlmGenerate (reflection_prompt py ctx plan resp results), Returned (RStr reflection)),
      (LoggingInfo (''Self-reflection: '' @ reflection), Returned RNone),
      (DbnLearnFromSuccess (dict_get results ''satisfaction_score'' 0.5), Returned RNone),
      (DbnCheckTriggers tc, Returned (RTrigger trig))]"
                  by simp
                with p1 p2 am ak tc fin show ?thesis
                  unfolding ctx res by blast
              qed
            qed
          qed
        qed
      qed
    qed
  qed
qed

section \<open>Exceptions\<close>

text \<open>
  Claim C4.  Take any run of \<^verbatim>\<open>_analyze_interaction\<close>, on any list of analyzers, in which
  every exception an analyzer raises is of class \<^verbatim>\<open>Exception\<close>.  The run returns a
  dictionary and does not raise; every analyzer of the list was called, once and in the
  order of the list, those after a failing one included; and the dictionary is the
  merge, in that order, of the dictionaries returned by the analyzers that did not raise.
\<close>

theorem analyzer_failures_contained:
  assumes "analyze_interaction py self ui resp ctx x = (r, x')"
    and "\<forall>c e. (c, Raised e) \<in> set (new_calls x x') \<longrightarrow> is_Exception e"
  shows "\<exists>results. r = Inr results \<and>
           map fst (filter (\<lambda>ev. kind_of (fst ev) = KAnalyze) (new_calls x x'))
             = map (\<lambda>a. AnalyzerAnalyze (class_name a) ui resp ctx) (analyzers self) \<and>
           results = merged (returned_results (new_calls x x'))"
proof -
  from assms(1) have "analyze_loop py (analyzers self) ui resp ctx [] x = (r, x')"
    by (simp add: analyze_interaction_def)
  from analyze_loop_run [OF this] obtain evs where evs:
    "trace x' = trace x @ evs"
    "\<forall>e. r = Inl e \<longrightarrow> \<not> is_Exception e \<and> (\<exists>c. (c, Raised e) \<in> set evs)"
    "\<forall>results. r = Inr results \<longrightarrow>
        map fst (filter (\<lambda>ev. kind_of (fst ev) = KAnalyze) evs)
          = map (\<lambda>a. AnalyzerAnalyze (class_name a) ui resp ctx) (analyzers self) \<and>
        results = fold (\<lambda>d acc. dict_update acc d) (returned_results evs) []"
    by blast
  have new: "new_calls x x' = evs"
    using evs(1) by (rule new_calls_append)
  have "\<not> (\<exists>e. r = Inl e)"
    using evs(2) assms(2) new by auto
  then obtain results where "r = Inr results"
    by (cases r) auto
  with evs(3) new show ?thesis
    by (simp add: merged_def)
qed

theorem analyzer_failures_contained_witness:
  "analyze_interaction demo_py
      (demo_sim (Inr ''ok'') None 5 []
         [demo_analyzer ''Tone'' (Inr [(''satisfaction_score'', 0.9)]),
          demo_analyzer ''Broken'' (Inl (Exception ''boom'')),
          demo_analyzer ''Clarity'' (Inr [(''clarity'', 0.4)])] 1)
      ''hi'' ''ok'' [] demo_start
    = (Inr [(''satisfaction_score'', 0.9), (''clarity'', 0.4)],
       \<lparr>world = 0, trace =
          [(AnalyzerAnalyze ''Tone'' ''hi'' ''ok'' [], Returned (RResults [(''satisfaction_score'', 0.9)])),
           (AnalyzerAnalyze ''Broken'' ''hi'' ''ok'' [], Raised (Exception ''boom'')),
           (LoggingError ''Error in Broken: boom'', Returned RNone),
           (AnalyzerAnalyze ''Clarity'' ''hi'' ''ok'' [], Returned (RResults [(''clarity'', 0.4)]))]\<rparr>) \<and>
   [(''satisfaction_score'', 0.9), (''clarity'', 0.4)]
     = merged [[(''satisfaction_score'', 0.9)], [(''clarity'', 0.4 :: real)]]"
proof -
  let ?self = "demo_sim (Inr ''ok'') None 5 []
         [demo_analyzer ''Tone'' (Inr [(''satisfaction_score'', 0.9)]),
          demo_analyzer ''Broken'' (Inl (Exception ''boom'')),
          demo_analyzer ''Clarity'' (Inr [(''clarity'', 0.4)])] 1"
  let ?x' = "\<lparr>world = 0, trace =
          [(AnalyzerAnalyze ''Tone'' ''hi'' ''ok'' [], Returned (RResults [(''satisfaction_score'', 0.9)])),
           (AnalyzerAnalyze ''Broken'' ''hi'' ''ok'' [], Raised (Exception ''boom'')),
           (LoggingError ''Error in Broken: boom'', Returned RNone),
           (AnalyzerAnalyze ''Clarity'' ''hi'' ''ok'' [], Returned (RResults [(''clarity'', 0.4)]))]\<rparr>
        :: (nat, nat) outside"
  have h1: "analyze_interaction demo_py ?self ''hi'' ''ok'' [] demo_start
      = (Inr [(''satisfaction_score'', 0.9), (''clarity'', 0.4)], ?x')"
    by (simp add: analyze_interaction_def run_defs demo_defs)
  have h2: "\<forall>c e. (c, Raised e) \<in> set (new_calls demo_start ?x') \<longrightarrow> is_Exception e"
    by (auto simp: new_calls_def demo_start_def)
  from analyzer_failures_contained [OF h1 h2]
  have "[(''satisfaction_score'', 0.9), (''clarity'', 0.4)]
      = merged (returned_results (new_calls demo_start ?x'))"
    by blast
  then have "[(''satisfaction_score'', 0.9), (''clarity'', 0.4)]
     = merged [[(''satisfaction_score'', 0.9)], [(''clarity'', 0.4 :: real)]]"
    by (simp add: new_calls_def demo_start_def)
  with h1 show ?thesis by blast
qed

text \<open>
  Claim C5.  When a call made during \<^verbatim>\<open>run_interaction\<close> raises and the call is not
  an analyzer's (it is a call of the LLM, the retriever, the knowledge integrator or the
  DBN), \<^verbatim>\<open>run_interaction\<close> raises that exception.  The other way round, an exception
  that was raised and is not the outcome of \<^verbatim>\<open>run_interaction\<close> came from an analyzer
  and is of class \<^verbatim>\<open>Exception\<close>.
\<close>

theorem collaborator_exceptions_propagate:
  assumes "run_interaction py s u x = (r, s', x')"
    and "(c, Raised e) \<in> set (new_calls x x')"
  shows "(kind_of c \<noteq> KAnalyze \<longrightarrow> r = Inl e) \<and>
         (r \<noteq> Inl e \<longrightarrow> kind_of c = KAnalyze \<and> is_Exception e)"
  using assms(1)
proof (cases rule: run_interaction_cases)
  case early
  with assms(2) show ?thesis by (simp add: new_calls_def)
next
  case (turn m)
  from propagatingD [OF propagating_run_turn turn(3)]
  obtain evs where evs: "trace x' = trace x @ evs"
    "\<And>c e. (c, Raised e) \<in> set evs \<Longrightarrow> (kind_of c = KAnalyze \<and> is_Exception e) \<or> r = Inl e"
    by metis
  have "new_calls x x' = evs"
    using evs(1) by (rule new_calls_append)
  with assms(2) evs(2) [of c e] show ?thesis by auto
qed

theorem collaborator_exceptions_propagate_witness:
  "run_interaction demo_py
      (demo_sim (Inl (Exception ''timeout'')) None 5 [''goodbye''] [] 0) ''hi'' demo_start
     = (Inl (Exception ''timeout''),
        demo_sim (Inl (Exception ''timeout'')) None 5 [''goodbye''] [] 1,
        \<lparr>world = 0, trace =
          [(DbnGetContext, Returned (RDict [(''current_stage'', Str ''greeting''), (''metrics'', Obj 0)])),
           (RetrieverRetrieve ''hi'', Returned (RVal (Obj 1))),
           (IntegratorIntegrate ''hi'' [(''current_stage'', Str ''greeting''), (''metrics'', Obj 0)],
            Returned (RVal (Str ''facts''))),
           (LlmGenerate ''\<newline>        Given the following context, generate a plan for the next response:\<newline>        Current stage: greeting\<newline>        Metrics: obj\<newline>        User input: hi\<newline>        Integrated knowledge: facts\<newline>\<newline>        Plan:\<newline>        '',
            Raised (Exception ''timeout''))]\<rparr>)"
proof -
  let ?p = "''\<newline>        Given the following context, generate a plan for the next response:\<newline>        Current stage: greeting\<newline>        Metrics: obj\<newline>        User input: hi\<newline>        Integrated knowledge: facts\<newline>\<newline>        Plan:\<newline>        ''"
  let ?x' = "\<lparr>world = 0, trace =
          [(DbnGetContext, Returned (RDict [(''current_stage'', Str ''greeting''), (''metrics'', Obj 0)])),
           (RetrieverRetrieve ''hi'', Returned (RVal (Obj 1))),
           (IntegratorIntegrate ''hi'' [(''current_stage'', Str ''greeting''), (''metrics'', Obj 0)],
            Returned (RVal (Str ''facts''))),
           (LlmGenerate ?p, Raised (Exception ''timeout''))]\<rparr> :: (nat, nat) outside"
  have h1: "run_interaction demo_py
      (demo_sim (Inl (Exception ''timeout'')) None 5 [''goodbye''] [] 0) ''hi'' demo_start
     = (Inl (Exception ''timeout''),
        demo_sim (Inl (Exception ''timeout'')) None 5 [''goodbye''] [] 1, ?x')"
    by (simp add: run_interaction_def turn_defs run_defs cfg_defs demo_defs)
  have h2: "(LlmGenerate ?p, Raised (Exception ''timeout'')) \<in> set (new_calls demo_start ?x')"
    by (simp add: new_calls_def demo_start_def)
  from collaborator_exceptions_propagate [OF h1 h2] h1 show ?thesis by simp
qed

section \<open>The order of the calls\<close>

lemma learn_calls_none:
  "\<forall>ev\<in>set evs. kind_of (fst ev) \<noteq> KLearn \<Longrightarrow> learn_calls evs = []"
  by (induction evs rule: learn_calls.induct) auto

lemma returned_results_none:
  "\<forall>ev\<in>set evs. snd ev = Returned RNone \<Longrightarrow> returned_results evs = []"
  by (induction evs rule: returned_results.induct) auto

lemma turn_trace:
  assumes run: "run_turn py self ui x = (r, x')"
    and reach: "(\<exists>v. r = Inr v) \<or>
                (\<exists>tc trig. (DbnCheckTriggers tc, Returned (RTrigger trig)) \<in> set (new_calls x x'))"
  shows "\<exists>dctx rk ik p1 plan p2 resp aevs reflection tc trig x9 post.
           plan_prompt py (built_context dctx rk ik ui) = Inr p1 \<and>
           response_prompt py (built_context dctx rk ik ui) plan = Inr p2 \<and>
           map fst (filter (\<lambda>ev. kind_of (fst ev) = KAnalyze) aevs)
             = map (\<lambda>a. AnalyzerAnalyze (class_name a) ui resp (built_context dctx rk ik ui))
                 (analyzers self) \<and>
           (\<forall>ev\<in>set aevs. kind_of (fst ev) = KAnalyze \<or> kind_of (fst ev) = KLogging) \<and>
           (\<forall>ev\<in>set post. kind_of (fst ev) = KLogging \<and> snd ev = Returned RNone) \<and>
           cfg_triggers (config self) = Inr tc \<and>
           after_trigger py self resp trig x9 = (r, x') \<and>
           trace x' = trace x9 @ post \<and>
           new_calls x x' =
               [(DbnGetContext, Returned (RDict dctx)),
                (RetrieverRetrieve ui, Returned (RVal rk)),
                (IntegratorIntegrate ui dctx, Returned (RVal ik)),
                (LlmGenerate p1, Returned (RStr plan)),
                (LlmGenerate p2, Returned (RStr resp))]
             @ aevs
             @ [(DbnUpdate (merged (returned_results aevs)) ui resp, Returned RNone),
                (LlmGenerate (reflection_prompt py (built_context dctx rk ik ui) plan resp
                     (merged (returned_results aevs))), Returned (RStr reflection)),
                (LoggingInfo (''Self-reflection: '' @ reflection), Returned RNone),
                (DbnLearnFromSuccess
                   (dict_get (merged (returned_results aevs)) ''satisfaction_score'' 0.5),
                 Returned RNone),
                (DbnCheckTriggers tc, Returned (RTrigger trig))]
             @ post"
proof -
  from run_turn_reached [OF run reach]
  obtain dctx rk ik p1 plan p2 resp aevs reflection tc trig x9 where
    f: "plan_prompt py (built_context dctx rk ik ui) = Inr p1"
       "response_prompt py (built_context dctx rk ik ui) plan = Inr p2"
       "map fst (filter (\<lambda>ev. kind_of (fst ev) = KAnalyze) aevs)
             = map (\<lambda>a. AnalyzerAnalyze (class_name a) ui resp (built_context dctx rk ik ui))
                 (analyzers self)"
       "\<forall>ev\<in>set aevs. kind_of (fst ev) = KAnalyze \<or> kind_of (fst ev) = KLogging"
       "cfg_triggers (config self) = Inr tc"
       "after_trigger py self resp trig x9 = (r, x')"
    and t9: "trace x9 = trace x
             @ [(DbnGetContext, Returned (RDict dctx)),
                (RetrieverRetrieve ui, Returned (RVal rk)),
                (IntegratorIntegrate ui dctx, Returned (RVal ik)),
                (LlmGenerate p1, Returned (RStr plan)),
                (LlmGenerate p2, Returned (RStr resp))]
             @ aevs
             @ [(DbnUpdate (merged (returned_results aevs)) ui resp, Returned RNone),
                (LlmGenerate (reflection_prompt py (built_context dctx rk ik ui) plan resp
                     (merged (returned_results aevs))), Returned (RStr reflection)),
                (LoggingInfo (''Self-reflection: '' @ reflection), Returned RNone),
                (DbnLearnFromSuccess
                   (dict_get (merged (returned_results aevs)) ''satisfaction_score'' 0.5),
                 Returned RNone),
                (DbnCheckTriggers tc, Returned (RTrigger trig))]"
    by blast
  from after_trigger_run [OF f(6)] obtain post where
    post: "trace x' = trace x9 @ post"
      "\<forall>ev\<in>set post. kind_of (fst ev) = KLogging \<and> snd ev = Returned RNone"
    by blast
  have "new_calls x x' =
               [(DbnGetContext, Returned (RDict dctx)),
                (RetrieverRetrieve ui, Returned (RVal rk)),
                (IntegratorIntegrate ui dctx, Returned (RVal ik)),
                (LlmGenerate p1, Returned (RStr plan)),
                (LlmGenerate p2, Returned (RStr resp))]
             @ aevs
             @ [(DbnUpdate (merged (returned_results aevs)) ui resp, Returned RNone),
                (LlmGenerate (reflection_prompt py (built_context dctx rk ik ui) plan resp
                     (merged (returned_results aevs))), Returned (RStr reflection)),
                (LoggingInfo (''Self-reflection: '' @ reflection), Returned RNone),
                (DbnLearnFromSuccess
                   (dict_get (merged (returned_results aevs)) ''satisfaction_score'' 0.5),
                 Returned RNone),
                (DbnCheckTriggers tc, Returned (RTrigger trig))]
             @ post"
    using t9 post(1) by (simp add: new_calls_def)
  with f post show ?thesis by blast
qed





section \<open>Triggers and end phrases\<close>

lemma after_trigger_fires:
  assumes "t \<noteq> []" and "map_of t ''action'' = Some a"
  shows "after_trigger py self resp (Some t) x =
           (getitem t ''message'', x\<lparr>trace := trace x @
              [(LoggingInfo (''Trigger activated: '' @ str_val py a), Returned RNone)]\<rparr>)"
proof (cases t)
  case Nil
  with assms(1) show ?thesis by simp
next
  case (Cons kv kvs)
  have "after_trigger py self resp (Some (kv # kvs)) x =
           (getitem (kv # kvs) ''message'', x\<lparr>trace := trace x @
              [(LoggingInfo (''Trigger activated: '' @ str_val py a), Returned RNone)]\<rparr>)"
    using assms(2) unfolding Cons after_trigger.simps
    by (simp add: pbind_def lift_def getitem_def logging_info_def logged_def)
  then show ?thesis by (simp add: Cons)
qed

text \<open>
  Claim C3, as amended.  When, in a call of \<^verbatim>\<open>run_interaction\<close>, \<^verbatim>\<open>dbn.check_triggers\<close>
  returns a truthy trigger that has an \<^verbatim>\<open>'action'\<close> entry, the outcome of the call is
  that of \<^verbatim>\<open>trigger['message']\<close>: the message is returned (and \<^verbatim>\<open>KeyError\<close> is raised
  when the trigger has none).  The trigger check comes after the DBN update, and after
  it only the line "Trigger activated" is logged: the end phrases are not looked at, so
  an end phrase in the response changes nothing.
\<close>

theorem trigger_message_returned:
  assumes run: "run_interaction py s u x = (r, s', x')"
    and fired: "(DbnCheckTriggers tc, Returned (RTrigger (Some t))) \<in> set (new_calls x x')"
    and truthy: "t \<noteq> []"
    and action: "map_of t ''action'' = Some a"
  shows "r = getitem t ''message'' \<and>
         (\<forall>msg. map_of t ''message'' = Some msg \<longrightarrow> r = Inr msg) \<and>
         (\<exists>pre results ai_response.
            new_calls x x' = pre @
              [(DbnCheckTriggers tc, Returned (RTrigger (Some t))),
               (LoggingInfo (''Trigger activated: '' @ str_val py a), Returned RNone)] \<and>
            (DbnUpdate results u ai_response, Returned RNone) \<in> set pre)"
  using run
proof (cases rule: run_interaction_cases)
  case early
  with fired show ?thesis by (simp add: new_calls_def)
next
  case (turn m)
  let ?self = "s\<lparr>turn_count := turn_count s + 1\<rparr>"
  from fired have "(\<exists>v. r = Inr v) \<or>
      (\<exists>tc trig. (DbnCheckTriggers tc, Returned (RTrigger trig)) \<in> set (new_calls x x'))"
    by blast
  from turn_trace [OF turn(3) this]
  obtain dctx rk ik p1 plan p2 resp aevs reflection tc0 trig x9 post where
    ak: "\<forall>ev\<in>set aevs. kind_of (fst ev) = KAnalyze \<or> kind_of (fst ev) = KLogging" and
    pk: "\<forall>ev\<in>set post. kind_of (fst ev) = KLogging \<and> snd ev = Returned RNone" and
    fin: "after_trigger py ?self resp trig x9 = (r, x')" and
    t9: "trace x' = trace x9 @ post" and
    new: "new_calls x x' =
               [(DbnGetContext, Returned (RDict dctx)),
                (RetrieverRetrieve u, Returned (RVal rk)),
                (IntegratorIntegrate u dctx, Returned (RVal ik)),
                (LlmGenerate p1, Returned (RStr plan)),
                (LlmGenerate p2, Returned (RStr resp))]
             @ aevs
             @ [(DbnUpdate (merged (returned_results aevs)) u resp, Returned RNone),
                (LlmGenerate (reflection_prompt py (built_context dctx rk ik u) plan resp
                     (merged (returned_results aevs))), Returned (RStr reflection)),
                (LoggingInfo (''Self-reflection: '' @ reflection), Returned RNone),
                (DbnLearnFromSuccess
                   (dict_get (merged (returned_results aevs)) ''satisfaction_score'' 0.5),
                 Returned RNone),
                (DbnCheckTriggers tc0, Returned (RTrigger trig))]
             @ post"
    by blast
  have same: "tc0 = tc \<and> trig = Some t"
    using fired ak pk unfolding new by fastforce
  with fin after_trigger_fires [OF truthy action, of py ?self resp x9]
  have res: "r = getitem t ''message''"
    "x' = x9\<lparr>trace := trace x9 @
        [(LoggingInfo (''Trigger activated: '' @ str_val py a), Returned RNone)]\<rparr>"
    by auto
  with t9 have post: "post = [(LoggingInfo (''Trigger activated: '' @ str_val py a), Returned RNone)]"
    by simp
  let ?pre = "[(DbnGetContext, Returned (RDict dctx)),
                (RetrieverRetrieve u, Returned (RVal rk)),
                (IntegratorIntegrate u dctx, Returned (RVal ik)),
                (LlmGenerate p1, Returned (RStr plan)),
                (LlmGenerate p2, Returned (RStr resp))]
             @ aevs
             @ [(DbnUpdate (merged (returned_results aevs)) u resp, Returned RNone),
                (LlmGenerate (reflection_prompt py (built_context dctx rk ik u) plan resp
                     (merged (returned_results aevs))), Returned (RStr reflection)),
                (LoggingInfo (''Self-reflection: '' @ reflection), Returned RNone),
                (DbnLearnFromSuccess
                   (dict_get (merged (returned_results aevs)) ''satisfaction_score'' 0.5),
                 Returned RNone)]"
  have "new_calls x x' = ?pre @
              [(DbnCheckTriggers tc, Returned (RTrigger (Some t))),
               (LoggingInfo (''Trigger activated: '' @ str_val py a), Returned RNone)]"
    using new same post by simp
  moreover have "(DbnUpdate (merged (returned_results aevs)) u resp, Returned RNone) \<in> set ?pre"
    by simp
  moreover have "\<forall>msg. map_of t ''message'' = Some msg \<longrightarrow> r = Inr msg"
    using res(1) by (simp add: getitem_def)
  ultimately show ?thesis
    using res(1) by blast
qed

theorem trigger_message_returned_witness:
  "(DbnCheckTriggers (Obj 7),
      Returned (RTrigger (Some [(''action'', Str ''escalate''),
                                (''message'', Str ''Escalating to a human.'')])))
     \<in> set (new_calls demo_start (snd (snd (run_interaction demo_py
          (demo_sim (Inr ''goodbye'')
             (Some [(''action'', Str ''escalate''), (''message'', Str ''Escalating to a human.'')])
             5 [''goodbye''] [] 0) ''hi'' demo_start)))) \<and>
   list_ex (\<lambda>phrase. str_contains phrase (lower ''goodbye'')) [''goodbye''] \<and>
   fst (run_interaction demo_py
          (demo_sim (Inr ''goodbye'')
             (Some [(''action'', Str ''escalate''), (''message'', Str ''Escalating to a human.'')])
             5 [''goodbye''] [] 0) ''hi'' demo_start)
     = Inr (Str ''Escalating to a human.'')"
proof -
  let ?t = "[(''action'', Str ''escalate''), (''message'', Str ''Escalating to a human.'')]
            :: nat pyval dict"
  let ?sim = "demo_sim (Inr ''goodbye'') (Some ?t) 5 [''goodbye''] [] 0"
  have h1: "run_interaction demo_py ?sim ''hi'' demo_start
      = (fst (run_interaction demo_py ?sim ''hi'' demo_start),
         fst (snd (run_interaction demo_py ?sim ''hi'' demo_start)),
         snd (snd (run_interaction demo_py ?sim ''hi'' demo_start)))"
    by simp
  have h2: "(DbnCheckTriggers (Obj 7), Returned (RTrigger (Some ?t)))
     \<in> set (new_calls demo_start (snd (snd (run_interaction demo_py ?sim ''hi'' demo_start))))"
    by (simp add: new_calls_def run_interaction_def turn_defs run_defs cfg_defs demo_defs)
  have h3: "?t \<noteq> []" by simp
  have h4: "map_of ?t ''action'' = Some (Str ''escalate'')" by simp
  have h5: "map_of ?t ''message'' = Some (Str ''Escalating to a human.'')" by simp
  have e: "list_ex (\<lambda>phrase. str_contains phrase (lower ''goodbye'')) [''goodbye'']"
    by (simp add: lower_def lower_char_def)
  from trigger_message_returned [OF h1 h2 h3 h4] h5
  have "fst (run_interaction demo_py ?sim ''hi'' demo_start) = Inr (Str ''Escalating to a human.'')"
    by blast
  with h2 e show ?thesis by blast
qed

text \<open>
  Claim C3 as first stated asks for \<^verbatim>\<open>trigger['message']\<close> for every truthy trigger.
  The log line reads \<^verbatim>\<open>trigger['action']\<close> before the return: a trigger that has a
  message and no action makes the call raise \<^verbatim>\<open>KeyError\<close>.
\<close>

theorem trigger_without_action_counterexample:
  "(DbnCheckTriggers (Obj 7),
      Returned (RTrigger (Some [(''message'', Str ''Escalating to a human.'')])))
     \<in> set (new_calls demo_start (snd (snd (run_interaction demo_py
          (demo_sim (Inr ''ok'') (Some [(''message'', Str ''Escalating to a human.'')])
             5 [''goodbye''] [] 0) ''hi'' demo_start)))) \<and>
   fst (run_interaction demo_py
          (demo_sim (Inr ''ok'') (Some [(''message'', Str ''Escalating to a human.'')])
             5 [''goodbye''] [] 0) ''hi'' demo_start)
     = Inl (KeyError ''action'')"
  by (simp add: new_calls_def run_interaction_def turn_defs run_defs cfg_defs demo_defs)

text \<open>
  Claim C2 says that an end phrase is found in the response whatever the letter case of
  the phrase in the configuration.  The source lowers the response and compares it with
  the phrase as configured: with the phrase \<^verbatim>\<open>"Goodbye"\<close> and the response
  \<^verbatim>\<open>"Goodbye!"\<close>, no trigger and the limit not reached, the phrase occurs in the response
  when both are lowered, and the call returns the response without the end marker.
\<close>

theorem capitalised_end_phrase_is_missed:
  "cfg_max_turns (config (demo_sim (Inr ''Goodbye!'') None 5 [''Goodbye''] [] 0)) = Inr 5 \<and>
   \<not> (5::int) < turn_count (demo_sim (Inr ''Goodbye!'') None 5 [''Goodbye''] [] 0) + 1 \<and>
   (DbnCheckTriggers (Obj 7), Returned (RTrigger None))
     \<in> set (new_calls demo_start (snd (snd (run_interaction demo_py
          (demo_sim (Inr ''Goodbye!'') None 5 [''Goodbye''] [] 0) ''hi'' demo_start)))) \<and>
   str_contains (lower ''Goodbye'') (lower ''Goodbye!'') \<and>
   fst (run_interaction demo_py (demo_sim (Inr ''Goodbye!'') None 5 [''Goodbye''] [] 0)
          ''hi'' demo_start)
     = Inr (Str ''Goodbye!'')"
  by (simp add: new_calls_def run_interaction_def turn_defs run_defs cfg_defs demo_defs)

text \<open>
  What the end phrase check does: it returns the response, with the end marker when
  some phrase, as configured, occurs in the lowered response.  For phrases configured in
  lower case that is the comparison without regard to letter case.
\<close>

lemma end_check_result:
  assumes "cfg_end_phrases (config self) = Inr phrases"
  shows "fst (end_check py self ai_response x) =
           Inr (Str (if list_ex (\<lambda>phrase. str_contains phrase (str_lower py ai_response)) phrases
                     then ai_response @ ''\<newline>Conversation ended.'' else ai_response))"
  using assms
  by (simp add: end_check_def pbind_def lift_def preturn_def logging_info_def logged_def)

lemma end_phrase_match_lowercase:
  assumes "\<forall>phrase\<in>set phrases. str_lower py phrase = phrase"
  shows "list_ex (\<lambda>phrase. str_contains phrase (str_lower py ai_response)) phrases
         \<longleftrightarrow> list_ex (\<lambda>phrase. str_contains (str_lower py phrase)
                                (str_lower py ai_response)) phrases"
  using assms by (induction phrases) auto

section \<open>The learning step\<close>

lemma generate_returns_append:
  "generate_returns (xs @ ys) = generate_returns xs + generate_returns ys"
  by (induction xs rule: generate_returns.induct) auto

lemma silent_none:
  assumes "silent evs"
  shows "generate_returns evs = 0 \<and> learn_calls evs = []"
proof -
  have "generate_returns evs = 0"
    using assms unfolding silent_def
    by (induction evs rule: generate_returns.induct) auto
  moreover have "learn_calls evs = []"
    using assms unfolding silent_def by (auto intro!: learn_calls_none)
  ultimately show ?thesis by simp
qed

lemma generate_context_silent:
  assumes "generate_context self ui x = (r, x1)"
  shows "\<exists>evs. trace x1 = trace x @ evs \<and> silent evs"
  using assms
  by (auto simp: generate_context_def silent_def pbind_def preturn_def invoke_def
      outcome_of_def split: prod.splits sum.splits)

lemma generate_plan_silent:
  assumes "generate_plan py self ctx x = (Inl e, x1)"
  shows "\<exists>evs. trace x1 = trace x @ evs \<and> silent evs"
  using assms
  by (auto simp: generate_plan_def silent_def pbind_def lift_def invoke_def outcome_of_def
      split: prod.splits sum.splits)

lemma generate_response_silent:
  assumes "generate_response py self ctx plan x = (Inl e, x1)"
  shows "\<exists>evs. trace x1 = trace x @ evs \<and> silent evs"
  using assms
  by (auto simp: generate_response_def silent_def pbind_def lift_def invoke_def outcome_of_def
      split: prod.splits sum.splits)

lemma analyze_silent:
  assumes "\<forall>ev\<in>set evs. kind_of (fst ev) = KAnalyze \<or> kind_of (fst ev) = KLogging"
  shows "silent evs"
  using assms unfolding silent_def by auto

lemma returned_results_other:
  assumes "\<forall>d. out \<noteq> Returned (RResults d)"
  shows "returned_results [(c, out)] = []"
proof (cases out)
  case (Raised e)
  then show ?thesis by simp
next
  case (Returned v)
  with assms show ?thesis by (cases v) auto
qed

lemma self_reflect_cases:
  assumes "self_reflect py self ctx plan resp results x = (r, x1)"
  shows "(\<exists>e. r = Inl e \<and>
            trace x1 = trace x @
              [(LlmGenerate (reflection_prompt py ctx plan resp results), Raised e)]) \<or>
         (\<exists>reflection out.
            trace x1 = trace x @
              [(LlmGenerate (reflection_prompt py ctx plan resp results),
                  Returned (RStr reflection)),
               (LoggingInfo (''Self-reflection: '' @ reflection), Returned RNone),
               (DbnLearnFromSuccess (dict_get results ''satisfaction_score'' 0.5), out)] \<and>
            (\<forall>d. out \<noteq> Returned (RResults d)))"
  using assms
  by (auto simp: self_reflect_def Let_def pbind_def logging_info_def logged_def invoke_def
      outcome_of_def split: prod.splits sum.splits)

lemma trigger_check_rest:
  assumes "trigger_check py self resp x = (r, x')"
  shows "\<exists>rest. trace x' = trace x @ rest \<and> silent rest \<and> returned_results rest = []"
proof -
  from trigger_check_run [OF assms] show ?thesis
  proof (elim disjE exE conjE)
    fix e assume "x' = x"
    then have "trace x' = trace x @ []" "silent []" "returned_results [] = []"
      by (simp_all add: silent_def)
    then show ?thesis by blast
  next
    fix e tc assume "trace x' = trace x @ [(DbnCheckTriggers tc, Raised e)]"
    moreover have "silent [(DbnCheckTriggers tc, Raised e)]"
      by (simp add: silent_def)
    moreover have "returned_results [(DbnCheckTriggers tc, Raised e)] = []"
      by simp
    ultimately show ?thesis by blast
  next
    fix tc trig x9
    assume t9: "trace x9 = trace x @ [(DbnCheckTriggers tc, Returned (RTrigger trig))]"
      and fin: "after_trigger py self resp trig x9 = (r, x')"
    from after_trigger_run [OF fin] obtain post where
      post: "trace x' = trace x9 @ post"
        "\<forall>ev\<in>set post. kind_of (fst ev) = KLogging \<and> snd ev = Returned RNone"
      by blast
    have "trace x' = trace x @ ((DbnCheckTriggers tc, Returned (RTrigger trig)) # post)"
      using t9 post(1) by simp
    moreover have "silent ((DbnCheckTriggers tc, Returned (RTrigger trig)) # post)"
      using post(2) by (auto simp: silent_def)
    moreover have "returned_results ((DbnCheckTriggers tc, Returned (RTrigger trig)) # post) = []"
      using post(2) by (simp add: returned_results_none)
    ultimately show ?thesis by blast
  qed
qed

lemma run_turn_learn:
  assumes run: "run_turn py self ui x = (r, x')"
  shows "(generate_returns (new_calls x x') = 3 \<and>
            learn_calls (new_calls x x') =
              [dict_get (merged (returned_results (new_calls x x'))) ''satisfaction_score'' 0.5]) \<or>
         (generate_returns (new_calls x x') < 3 \<and> learn_calls (new_calls x x') = [] \<and>
            (\<exists>e. r = Inl e))"
proof -
  from run show ?thesis
    unfolding run_turn_def
  proof (cases rule: pbind_run)
    case (raised e)
    from generate_context_silent [OF raised(1)] obtain evs where
      ev: "trace x' = trace x @ evs" "silent evs"
      by auto
    have "new_calls x x' = evs"
      using ev(1) by (simp add: new_calls_def)
    with silent_none [OF ev(2)] raised(2) show ?thesis
      by simp
  next
    case c1: (returned ctx x1)
    from generate_context_run [OF c1(1)] obtain dctx rk ik where
      ctx: "ctx = built_context dctx rk ik ui" and
      t1: "trace x1 = trace x @ [(DbnGetContext, Returned (RDict dctx)),
      (RetrieverRetrieve ui, Returned (RVal rk)),
      (IntegratorIntegrate ui dctx, Returned (RVal ik))]"
      by auto
    from c1(2) show ?thesis
    proof (cases rule: pbind_run)
      case (raised e)
    from generate_plan_silent [OF raised(1)] obtain evs where
      ev: "trace x' = trace x1 @ evs" "silent evs"
      by auto
    have "new_calls x x' = [(DbnGetContext, Returned (RDict dctx)),
      (RetrieverRetrieve ui, Returned (RVal rk)),
      (IntegratorIntegrate ui dctx, Returned (RVal ik))] @ evs"
      using t1 ev(1) by (simp add: new_calls_def)
    with silent_none [OF ev(2)] raised(2) show ?thesis
      by (simp add: generate_returns_append learn_calls_append)
    next
      case c2: (returned plan x2)
      from generate_plan_run [OF c2(1)] obtain p1 where
        "trace x2 = trace x1 @ [(LlmGenerate p1, Returned (RStr plan))]"
        by auto
      with t1 have t2: "trace x2 = trace x @ [(DbnGetContext, Returned (RDict dctx)),
      (RetrieverRetrieve ui, Returned (RVal rk)),
      (IntegratorIntegrate ui dctx, Returned (RVal ik)),
      (LlmGenerate p1, Returned (RStr plan))]"
        by simp
      from c2(2) show ?thesis
      proof (cases rule: pbind_run)
        case (raised e)
    from generate_response_silent [OF raised(1)] obtain evs where
      ev: "trace x' = trace x2 @ evs" "silent evs"
      by auto
    have "new_calls x x' = [(DbnGetContext, Returned (RDict dctx)),
      (RetrieverRetrieve ui, Returned (RVal rk)),
      (IntegratorIntegrate ui dctx, Returned (RVal ik)),
      (LlmGenerate p1, Returned (RStr plan))] @ evs"
      using t2 ev(1) by (simp add: new_calls_def)
    with silent_none [OF ev(2)] raised(2) show ?thesis
      by (simp add: generate_returns_append learn_calls_append)
      next
        case c3: (returned resp x3)
        from generate_response_run [OF c3(1)] obtain p2 where
          "trace x3 = trace x2 @ [(LlmGenerate p2, Returned (RStr resp))]"
          by auto
        with t2 have t3: "trace x3 = trace x @ [(DbnGetContext, Returned (RDict dctx)),
      (RetrieverRetrieve ui, Returned (RVal rk)),
      (IntegratorIntegrate ui dctx, Returned (RVal ik)),
      (LlmGenerate p1, Returned (RStr plan)),
      (LlmGenerate p2, Returned (RStr resp))]"
          by simp
        from c3(2) show ?thesis
        proof (cases rule: pbind_run)
          case (raised e)
          from analyze_interaction_run [OF raised(1)] obtain evs where
            ev1: "trace x' = trace x3 @ evs" and
            "\<forall>ev\<in>set evs. kind_of (fst ev) = KAnalyze \<or> kind_of (fst ev) = KLogging"
            by auto
          then have ev2: "silent evs"
            by (simp add: analyze_silent)
          have "new_calls x x' = [(DbnGetContext, Returned (RDict dctx)),
      (RetrieverRetrieve ui, Returned (RVal rk)),
      (IntegratorIntegrate ui dctx, Returned (RVal ik)),
      (LlmGenerate p1, Returned (RStr plan)),
      (LlmGenerate p2, Returned (RStr resp))] @ evs"
            using t3 ev1 by (simp add: new_calls_def)
          with silent_none [OF ev2] raised(2) show ?thesis
            by (simp add: generate_returns_append learn_calls_append)
        next
          case c4: (returned results x4)
          from analyze_interaction_run [OF c4(1)] obtain aevs where
            "trace x4 = trace x3 @ aevs" and
            ak: "\<forall>ev\<in>set aevs. kind_of (fst ev) = KAnalyze \<or> kind_of (fst ev) = KLogging" and
            res: "results = merged (returned_results aevs)"
            by blast
          with t3 have t4: "trace x4 = trace x @ [(DbnGetContext, Returned (RDict dctx)),
      (RetrieverRetrieve ui, Returned (RVal rk)),
      (IntegratorIntegrate ui dctx, Returned (RVal ik)),
      (LlmGenerate p1, Returned (RStr plan)),
      (LlmGenerate p2, Returned (RStr resp))] @ aevs"
            by simp
          note an = silent_none [OF analyze_silent [OF ak]]
          from c4(2) show ?thesis
          proof (cases rule: pbind_run)
            case (raised e)
            from invoke_eq [OF raised(1)]
            have "trace x' = trace x4 @ [(DbnUpdate results ui resp, Raised e)]"
              by (simp add: outcome_of_def)
            with t4 have "new_calls x x' = [(DbnGetContext, Returned (RDict dctx)),
      (RetrieverRetrieve ui, Returned (RVal rk)),
      (IntegratorIntegrate ui dctx, Returned (RVal ik)),
      (LlmGenerate p1, Returned (RStr plan)),
      (LlmGenerate p2, Returned (RStr resp))] @ aevs @ [(DbnUpdate results ui resp, Raised e)]"
              by (simp add: new_calls_def)
            with an raised(2) show ?thesis
              by (simp add: generate_returns_append learn_calls_append)
          next
            case c5: (returned u5 x5)
            from invoke_eq [OF c5(1)]
            have "trace x5 = trace x4 @ [(DbnUpdate results ui resp, Returned RNone)]"
              by (simp add: outcome_of_def)
            with t4 have t5: "trace x5 = trace x @ [(DbnGetContext, Returned (RDict dctx)),
      (RetrieverRetrieve ui, Returned (RVal rk)),
      (IntegratorIntegrate ui dctx, Returned (RVal ik)),
      (LlmGenerate p1, Returned (RStr plan)),
      (LlmGenerate p2, Returned (RStr resp))] @ aevs @ [(DbnUpdate results ui resp, Returned RNone)]"
              by simp
            from c5(2) show ?thesis
            proof (cases rule: pbind_run)
              case (raised e)
              from self_reflect_cases [OF raised(1)] show ?thesis
              proof (elim disjE exE conjE)
                fix e'
                assume "trace x' = trace x5 @
                  [(LlmGenerate (reflection_prompt py ctx plan resp results), Raised e')]"
                with t5 have "new_calls x x' = [(DbnGetContext, Returned (RDict dctx)),
      (RetrieverRetrieve ui, Returned (RVal rk)),
      (IntegratorIntegrate ui dctx, Returned (RVal ik)),
      (LlmGenerate p1, Returned (RStr plan)),
      (LlmGenerate p2, Returned (RStr resp))] @ aevs @ [(DbnUpdate results ui resp, Returned RNone)] @
                  [(LlmGenerate (reflection_prompt py ctx plan resp results), Raised e')]"
                  by (simp add: new_calls_def)
                with an raised(2) show ?thesis
                  by (simp add: generate_returns_append learn_calls_append)
              next
                fix reflection out
                assume "trace x' = trace x5 @
                  [(LlmGenerate (reflection_prompt py ctx plan resp results),
                      Returned (RStr reflection)),
                   (LoggingInfo (''Self-reflection: '' @ reflection), Returned RNone),
                   (DbnLearnFromSuccess (dict_get results ''satisfaction_score'' 0.5), out)]"
                  and out: "\<forall>d. out \<noteq> Returned (RResults d)"
                with t5 have "new_calls x x' = [(DbnGetContext, Returned (RDict dctx)),
      (RetrieverRetrieve ui, Returned (RVal rk)),
      (IntegratorIntegrate ui dctx, Returned (RVal ik)),
      (LlmGenerate p1, Returned (RStr plan)),
      (LlmGenerate p2, Returned (RStr resp))] @ aevs @ [(DbnUpdate results ui resp, Returned RNone)] @
                  [(LlmGenerate (reflection_prompt py ctx plan resp results),
                      Returned (RStr reflection)),
                   (LoggingInfo (''Self-reflection: '' @ reflection), Returned RNone),
                   (DbnLearnFromSuccess (dict_get results ''satisfaction_score'' 0.5), out)]"
                  by (simp add: new_calls_def)
                moreover have "returned_results
                    [(DbnLearnFromSuccess (dict_get results ''satisfaction_score'' 0.5), out)] = []"
                  using out by (rule returned_results_other)
                ultimately show ?thesis
                  using an res
                  by (simp add: generate_returns_append learn_calls_append
                      returned_results_append)
              qed
            next
              case c6: (returned u6 x6)
              from self_reflect_run [OF c6(1)] obtain reflection where
                "trace x6 = trace x5 @
                  [(LlmGenerate (reflection_prompt py ctx plan resp results),
                      Returned (RStr reflection)),
                   (LoggingInfo (''Self-reflection: '' @ reflection), Returned RNone),
                   (DbnLearnFromSuccess (dict_get results ''satisfaction_score'' 0.5),
                      Returned RNone)]"
                by auto
              with t5 have t6: "trace x6 = trace x @ [(DbnGetContext, Returned (RDict dctx)),
      (RetrieverRetrieve ui, Returned (RVal rk)),
      (IntegratorIntegrate ui dctx, Returned (RVal ik)),
      (LlmGenerate p1, Returned (RStr plan)),
      (LlmGenerate p2, Returned (RStr resp))] @ aevs @ [(DbnUpdate results ui resp, Returned RNone)] @
                  [(LlmGenerate (reflection_prompt py ctx plan resp results),
                      Returned (RStr reflection)),
                   (LoggingInfo (''Self-reflection: '' @ reflection), Returned RNone),
                   (DbnLearnFromSuccess (dict_get results ''satisfaction_score'' 0.5),
                      Returned RNone)]"
                by simp
              from trigger_check_rest [OF c6(2)] obtain rest where
                rest: "trace x' = trace x6 @ rest" "silent rest" "returned_results rest = []"
                by blast
              have "new_calls x x' = [(DbnGetContext, Returned (RDict dctx)),
      (RetrieverRetrieve ui, Returned (RVal rk)),
      (IntegratorIntegrate ui dctx, Returned (RVal ik)),
      (LlmGenerate p1, Returned (RStr plan)),
      (LlmGenerate p2, Returned (RStr resp))] @ aevs @ [(DbnUpdate results ui resp, Returned RNone)] @
                  [(LlmGenerate (reflection_prompt py ctx plan resp results),
                      Returned (RStr reflection)),
                   (LoggingInfo (''Self-reflection: '' @ reflection), Returned RNone),
                   (DbnLearnFromSuccess (dict_get results ''satisfaction_score'' 0.5),
                      Returned RNone)] @ rest"
                using t6 rest(1) by (simp add: new_calls_def)
              with an silent_none [OF rest(2)] rest(3) res show ?thesis
                by (simp add: generate_returns_append learn_calls_append
                    returned_results_append)
            qed
          qed
        qed
      qed
    qed
  qed
qed

text \<open>
  Claim C10, as amended.  Take a call of \<^verbatim>\<open>run_interaction\<close> that does not hit the turn
  limit.  When nothing raises before the learning step, which is when the three requests
  to the LLM (plan, response, reflection) have returned, \<^verbatim>\<open>dbn.learn_from_success\<close> is
  called exactly once, with the value at \<^verbatim>\<open>'satisfaction_score'\<close> in the merged analysis
  results, or with 0.5 when the key is absent.  That covers every call that returns (a
  trigger message, a response with the end marker or a plain response) and every call
  that raises later (the learning call itself, the trigger check, a missing key of the
  trigger or of the configuration).  In every other call below the limit an exception
  left the call before the learning step and \<^verbatim>\<open>dbn.learn_from_success\<close> was not called.
\<close>

theorem learn_from_success_once:
  assumes "run_interaction py s u x = (r, s', x')"
    and "cfg_max_turns (config s) = Inr m" and "\<not> m < turn_count s + 1"
  shows "length (learn_calls (new_calls x x')) \<le> 1 \<and>
         ((\<exists>v. r = Inr v) \<or> generate_returns (new_calls x x') = 3 \<longrightarrow>
            learn_calls (new_calls x x') =
              [case map_of (merged (returned_results (new_calls x x'))) ''satisfaction_score'' of
                 None \<Rightarrow> 0.5 | Some score \<Rightarrow> score]) \<and>
         (generate_returns (new_calls x x') \<noteq> 3 \<longrightarrow>
            learn_calls (new_calls x x') = [] \<and> (\<exists>e. r = Inl e))"
proof -
  let ?self = "s\<lparr>turn_count := turn_count s + 1\<rparr>"
  have run: "run_turn py ?self u x = (r, x')"
    using run_interaction_turn [OF assms(2,3), of py u x] assms(1) by (simp add: prod_eq_iff)
  from run_turn_learn [OF run] show ?thesis
  proof (elim disjE conjE exE)
    assume "generate_returns (new_calls x x') = 3"
      and "learn_calls (new_calls x x') =
        [dict_get (merged (returned_results (new_calls x x'))) ''satisfaction_score'' 0.5]"
    then show ?thesis
      by (simp add: dict_get_def split: option.splits)
  next
    fix e
    assume "generate_returns (new_calls x x') < 3" and "learn_calls (new_calls x x') = []"
      and "r = Inl e"
    then show ?thesis by simp
  qed
qed

theorem learn_from_success_once_witness:
  "cfg_max_turns (config (demo_sim (Inr ''ok'') (Some [(''message'', Str ''Escalating to a human.'')])
       5 [''goodbye''] [demo_analyzer ''Broken'' (Inl (Exception ''boom''))] 0)) = Inr 5 \<and>
   \<not> (5::int) < turn_count (demo_sim (Inr ''ok'') (Some [(''message'', Str ''Escalating to a human.'')])
       5 [''goodbye''] [demo_analyzer ''Broken'' (Inl (Exception ''boom''))] 0) + 1 \<and>
   fst (run_interaction demo_py (demo_sim (Inr ''ok'') (Some [(''message'', Str ''Escalating to a human.'')])
       5 [''goodbye''] [demo_analyzer ''Broken'' (Inl (Exception ''boom''))] 0) ''hi'' demo_start)
     = Inl (KeyError ''action'') \<and>
   generate_returns (new_calls demo_start (snd (snd (run_interaction demo_py
       (demo_sim (Inr ''ok'') (Some [(''message'', Str ''Escalating to a human.'')])
       5 [''goodbye''] [demo_analyzer ''Broken'' (Inl (Exception ''boom''))] 0) ''hi'' demo_start))))
     = 3 \<and>
   learn_calls (new_calls demo_start (snd (snd (run_interaction demo_py
       (demo_sim (Inr ''ok'') (Some [(''message'', Str ''Escalating to a human.'')])
       5 [''goodbye''] [demo_analyzer ''Broken'' (Inl (Exception ''boom''))] 0) ''hi'' demo_start))))
     = [0.5]"
proof -
  let ?sim = "demo_sim (Inr ''ok'') (Some [(''message'', Str ''Escalating to a human.'')])
       5 [''goodbye''] [demo_analyzer ''Broken'' (Inl (Exception ''boom''))] 0"
  have h1: "run_interaction demo_py ?sim ''hi'' demo_start
      = (fst (run_interaction demo_py ?sim ''hi'' demo_start),
         fst (snd (run_interaction demo_py ?sim ''hi'' demo_start)),
         snd (snd (run_interaction demo_py ?sim ''hi'' demo_start)))"
    by simp
  have h2: "cfg_max_turns (config ?sim) = Inr 5"
    by (simp add: cfg_defs demo_defs)
  have h3: "\<not> (5::int) < turn_count ?sim + 1"
    by (simp add: demo_defs)
  have r: "fst (run_interaction demo_py ?sim ''hi'' demo_start) = Inl (KeyError ''action'')"
    by (simp add: run_interaction_def turn_defs run_defs cfg_defs demo_defs)
  have g: "generate_returns (new_calls demo_start
      (snd (snd (run_interaction demo_py ?sim ''hi'' demo_start)))) = 3"
    by (simp add: new_calls_def run_interaction_def turn_defs run_defs cfg_defs demo_defs)
  have m: "merged (returned_results (new_calls demo_start
      (snd (snd (run_interaction demo_py ?sim ''hi'' demo_start))))) = []"
    by (simp add: merged_def new_calls_def run_interaction_def turn_defs run_defs cfg_defs demo_defs)
  from learn_from_success_once [OF h1 h2 h3] g
  have "learn_calls (new_calls demo_start (snd (snd (run_interaction demo_py ?sim ''hi'' demo_start))))
     = [case map_of (merged (returned_results (new_calls demo_start
          (snd (snd (run_interaction demo_py ?sim ''hi'' demo_start)))))) ''satisfaction_score'' of
          None \<Rightarrow> 0.5 | Some score \<Rightarrow> score]"
    by blast
  then have "learn_calls (new_calls demo_start (snd (snd (run_interaction demo_py ?sim ''hi'' demo_start))))
     = [0.5]"
    unfolding m by simp
  with h2 h3 r g show ?thesis by blast
qed

text \<open>
  Claim C10 as first stated asks for exactly one call in every call that does not hit
  the limit.  When the LLM raises on the plan prompt the exception leaves
  \<^verbatim>\<open>run_interaction\<close> before the reflection step, and \<^verbatim>\<open>dbn.learn_from_success\<close> is not
  called at all.
\<close>

theorem learn_skipped_when_llm_raises_counterexample:
  "cfg_max_turns (config (demo_sim (Inl (Exception ''timeout'')) None 5 [''goodbye''] [] 0)) = Inr 5 \<and>
   \<not> (5::int) < turn_count (demo_sim (Inl (Exception ''timeout'')) None 5 [''goodbye''] [] 0) + 1 \<and>
   learn_calls (new_calls demo_start (snd (snd (run_interaction demo_py
      (demo_sim (Inl (Exception ''timeout'')) None 5 [''goodbye''] [] 0) ''hi'' demo_start)))) = []"
  by (simp add: new_calls_def run_interaction_def turn_defs run_defs cfg_defs demo_defs)

end
